theory Spec2Isabelle
  imports Complex_Main "HOL-Library.Word"
begin

unbundle bit_operations_syntax

section \<open>Numbers, dates and errors of the host language\<close>

text \<open>
  The services are TypeScript classes. A JavaScript number is modelled as a real, with
  the three non-finite doubles as constructors of their own where an argument can be
  one of them. The arithmetic of the virtual clock rounds the result of every
  operation to the nearest double, as \<open>roundToDouble\<close> below does; the closed-form
  formulas of the scenarios are taken over the reals.
  A \<open>Date\<close> object holds a time value, a whole number of milliseconds since the epoch
  of absolute value at most 8.64e15, or is the invalid date. The ISO strings that
  \<open>TimeControlData\<close> stores are always the output of \<open>toISOString\<close> and are read back
  by \<open>new Date\<close>, so they are modelled by the time value they denote.
\<close>

datatype number = NaN | PosInfinity | NegInfinity | Num real

datatype Date = Invalid_Date | Time_Value int

datatype error =
    SimulationNotFound string      \<comment> \<open>\<open>Error('Simulation not found: ' + id)\<close>\<close>
  | TimeScaleNotPositive           \<comment> \<open>\<open>Error('Time scale must be a positive number')\<close>\<close>
  | InvalidTimestamp               \<comment> \<open>\<open>Error('Invalid timestamp')\<close>\<close>
  | RangeError_InvalidTimeValue    \<comment> \<open>\<open>RangeError\<close> raised by \<open>toISOString\<close> on the invalid date\<close>

definition isNaN :: "number \<Rightarrow> bool" where
  "isNaN x = (case x of NaN \<Rightarrow> True | _ \<Rightarrow> False)"

text \<open>The comparison \<open>x <= 0\<close> of JavaScript: false on \<open>NaN\<close>.\<close>

definition le_zero :: "number \<Rightarrow> bool" where
  "le_zero x = (case x of NaN \<Rightarrow> False | PosInfinity \<Rightarrow> False | NegInfinity \<Rightarrow> True | Num r \<Rightarrow> r \<le> 0)"

text \<open>
  Rounding to the nearest double, ties to even. A double has 53 significant bits: a
  number \<open>x\<close> with \<open>2^e \<le> |x| < 2^(e+1)\<close> is rounded to a multiple of \<open>2^(e-52)\<close>. The
  exponent range of doubles is not modelled; the numbers of the clock, products of a
  count of milliseconds and a scale between 0.1 and 1000, stay far inside it.
\<close>

definition roundTiesToEven :: "real \<Rightarrow> int" where
  "roundTiesToEven y =
     (let f = \<lfloor>y\<rfloor>
      in if y - real_of_int f < 1 / 2 then f
         else if 1 / 2 < y - real_of_int f then f + 1
         else if even f then f else f + 1)"

definition roundToDouble :: "real \<Rightarrow> real" where
  "roundToDouble x =
     (if x = 0 then 0
      else (let e = \<lfloor>log 2 \<bar>x\<bar>\<rfloor>; ulp = 2 powr real_of_int (e - 52)
            in ulp * real_of_int (roundTiesToEven (x / ulp))))"

text \<open>\<open>ToIntegerOrInfinity\<close> on a finite number: truncation towards zero.\<close>

definition toInteger :: "real \<Rightarrow> int" where
  "toInteger t = (if 0 \<le> t then \<lfloor>t\<rfloor> else \<lceil>t\<rceil>)"

definition maxTimeValue :: real where
  "maxTimeValue = 8640000000000000"

text \<open>\<open>TimeClip\<close>, which \<open>Date.prototype.setTime\<close> applies to its argument.\<close>

definition TimeClip :: "real \<Rightarrow> Date" where
  "TimeClip t = (if \<bar>t\<bar> > maxTimeValue then Invalid_Date else Time_Value (toInteger t))"

definition toISOString :: "Date \<Rightarrow> error + int" where
  "toISOString d = (case d of Invalid_Date \<Rightarrow> Inl RangeError_InvalidTimeValue | Time_Value t \<Rightarrow> Inr t)"

section \<open>TimeControlService\<close>

datatype Status = Running | Paused

record TimeControlData =
  simulationId :: string
  startTime :: int
  currentTime :: int
  timeScale :: real
  status :: Status
  lastUpdateRealTime :: int

record TimeInfoDto =
  info_simulationId :: string
  info_currentTime :: int
  info_timeScale :: real
  info_status :: Status
  realTimeFactor :: real

record TimeControlConfigDto =
  config_startTime :: int
  config_currentTime :: int
  config_timeScale :: real
  config_status :: Status

record TimeControlInitParamsDto =
  init_simulationId :: string
  init_startTime :: "Date option"
  init_timeScale :: "number option"

text \<open>The in-memory \<open>timeControlStore\<close>: a \<open>Map\<close> from simulation id to its record.\<close>

type_synonym timeControlStore = "string \<rightharpoonup> TimeControlData"

definition minTimeScale :: real where
  "minTimeScale = 1 / 10"

definition maxTimeScale :: real where
  "maxTimeScale = 1000"

text \<open>
  \<open>validateTimeScale\<close> throws on \<open>isNaN(timeScale) || timeScale <= 0\<close> and otherwise
  returns \<open>Math.max(0.1, Math.min(1000, timeScale))\<close>. Past the guard the argument is a
  positive real or \<open>+Infinity\<close>, and \<open>Math.min(1000, +Infinity)\<close> is 1000.
\<close>

definition validateTimeScale :: "number \<Rightarrow> error + real" where
  "validateTimeScale ts =
     (if isNaN ts \<or> le_zero ts then Inl TimeScaleNotPositive
      else Inr (max minTimeScale
                  (case ts of Num r \<Rightarrow> min maxTimeScale r | _ \<Rightarrow> maxTimeScale)))"

definition calculateRealTimeFactor :: "TimeControlData \<Rightarrow> real" where
  "calculateRealTimeFactor d = (if status d = Running then timeScale d else 0)"

text \<open>
  \<open>updateCurrentTime\<close>, with the value of \<open>Date.now()\<close> as the argument \<open>now\<close>. The
  difference, the product and the sum are computed in doubles, each rounded.
  Wall-clock readings and time values are whole numbers of milliseconds below \<open>2^53\<close>
  in magnitude, which doubles hold exactly; the time scale is a double, and a scale
  that is not one is read as the double nearest to it. When \<open>toISOString\<close> throws,
  neither field has been assigned.
\<close>

definition updateCurrentTime :: "int \<Rightarrow> TimeControlData \<Rightarrow> error + TimeControlData" where
  "updateCurrentTime now d =
     (let elapsedRealMs = roundToDouble (real_of_int now - real_of_int (lastUpdateRealTime d));
          elapsedSimMs = roundToDouble (elapsedRealMs * roundToDouble (timeScale d))
      in case toISOString
                (TimeClip (roundToDouble (real_of_int (currentTime d) + elapsedSimMs))) of
           Inl e \<Rightarrow> Inl e
         | Inr t \<Rightarrow> Inr (d\<lparr>currentTime := t, lastUpdateRealTime := now\<rparr>))"

text \<open>The block \<open>if (status === 'running') updateCurrentTime(data)\<close> of three operations.\<close>

definition updateIfRunning :: "int \<Rightarrow> TimeControlData \<Rightarrow> error + TimeControlData" where
  "updateIfRunning now d = (if status d = Running then updateCurrentTime now d else Inr d)"

definition timeInfo :: "string \<Rightarrow> TimeControlData \<Rightarrow> TimeInfoDto" where
  "timeInfo sid d =
     \<lparr>info_simulationId = sid, info_currentTime = currentTime d, info_timeScale = timeScale d,
      info_status = status d, realTimeFactor = calculateRealTimeFactor d\<rparr>"

definition getTimeControlData :: "timeControlStore \<Rightarrow> string \<Rightarrow> error + TimeControlData" where
  "getTimeControlData store sid =
     (case store sid of None \<Rightarrow> Inl (SimulationNotFound sid) | Some d \<Rightarrow> Inr d)"

text \<open>
  \<open>params.timeScale || 1.0\<close>: the default replaces an absent, zero or \<open>NaN\<close> scale.
\<close>

definition timeScale_or_default :: "number option \<Rightarrow> number" where
  "timeScale_or_default ts =
     (case ts of None \<Rightarrow> Num 1 | Some NaN \<Rightarrow> Num 1
      | Some (Num r) \<Rightarrow> (if r = 0 then Num 1 else Num r) | Some x \<Rightarrow> x)"

text \<open>
  Each operation takes the store and returns its result with the store it leaves. The
  wall-clock readings \<open>Date.now()\<close> of a call are its last arguments, in the order in
  which the call takes them.
\<close>

definition initialize ::
  "timeControlStore \<Rightarrow> TimeControlInitParamsDto \<Rightarrow> int \<Rightarrow> int
     \<Rightarrow> (error + TimeControlConfigDto) \<times> timeControlStore" where
  "initialize store params now1 now2 =
     (let start = (case init_startTime params of None \<Rightarrow> Time_Value now1 | Some d \<Rightarrow> d)
      in case validateTimeScale (timeScale_or_default (init_timeScale params)) of
           Inl e \<Rightarrow> (Inl e, store)
         | Inr ts \<Rightarrow>
            (case toISOString start of
               Inl e \<Rightarrow> (Inl e, store)
             | Inr t \<Rightarrow>
                (let d = \<lparr>simulationId = init_simulationId params, startTime = t, currentTime = t,
                          timeScale = ts, status = Running, lastUpdateRealTime = now2\<rparr>
                 in (Inr \<lparr>config_startTime = startTime d, config_currentTime = currentTime d,
                          config_timeScale = timeScale d, config_status = status d\<rparr>,
                     store(init_simulationId params \<mapsto> d)))))"

definition getCurrentTime ::
  "timeControlStore \<Rightarrow> string \<Rightarrow> int \<Rightarrow> (error + TimeInfoDto) \<times> timeControlStore" where
  "getCurrentTime store sid now =
     (case getTimeControlData store sid of
        Inl e \<Rightarrow> (Inl e, store)
      | Inr d \<Rightarrow>
         (case updateIfRunning now d of
            Inl e \<Rightarrow> (Inl e, store)
          | Inr d1 \<Rightarrow> (Inr (timeInfo sid d1), store(sid \<mapsto> d1))))"

definition setTimeScale ::
  "timeControlStore \<Rightarrow> string \<Rightarrow> number \<Rightarrow> int \<Rightarrow> int
     \<Rightarrow> (error + TimeInfoDto) \<times> timeControlStore" where
  "setTimeScale store sid ts now1 now2 =
     (case getTimeControlData store sid of
        Inl e \<Rightarrow> (Inl e, store)
      | Inr d \<Rightarrow>
         (case updateIfRunning now1 d of
            Inl e \<Rightarrow> (Inl e, store)
          | Inr d1 \<Rightarrow>
             (case validateTimeScale ts of
                Inl e \<Rightarrow> (Inl e, store(sid \<mapsto> d1))
              | Inr s \<Rightarrow>
                 (let d2 = d1\<lparr>timeScale := s, lastUpdateRealTime := now2\<rparr>
                  in (Inr (timeInfo sid d2), store(sid \<mapsto> d2))))))"

definition pause ::
  "timeControlStore \<Rightarrow> string \<Rightarrow> int \<Rightarrow> (error + TimeInfoDto) \<times> timeControlStore" where
  "pause store sid now =
     (case getTimeControlData store sid of
        Inl e \<Rightarrow> (Inl e, store)
      | Inr d \<Rightarrow>
         (case updateIfRunning now d of
            Inl e \<Rightarrow> (Inl e, store)
          | Inr d1 \<Rightarrow>
             (let d2 = d1\<lparr>status := Paused\<rparr>
              in (Inr (timeInfo sid d2), store(sid \<mapsto> d2)))))"

definition resume ::
  "timeControlStore \<Rightarrow> string \<Rightarrow> int \<Rightarrow> (error + TimeInfoDto) \<times> timeControlStore" where
  "resume store sid now =
     (case getTimeControlData store sid of
        Inl e \<Rightarrow> (Inl e, store)
      | Inr d \<Rightarrow>
         (let d1 = d\<lparr>status := Running, lastUpdateRealTime := now\<rparr>
          in (Inr (timeInfo sid d1), store(sid \<mapsto> d1))))"

definition reset ::
  "timeControlStore \<Rightarrow> string \<Rightarrow> (error + TimeInfoDto) \<times> timeControlStore" where
  "reset store sid =
     (case getTimeControlData store sid of
        Inl e \<Rightarrow> (Inl e, store)
      | Inr d \<Rightarrow>
         (let d1 = d\<lparr>currentTime := startTime d, status := Paused\<rparr>
          in (Inr (timeInfo sid d1), store(sid \<mapsto> d1))))"

text \<open>
  \<open>setCurrentTime\<close> takes the timestamp as \<open>new Date(timestamp)\<close> has parsed it: the
  invalid date for an unparsable string.
\<close>

definition setCurrentTime ::
  "timeControlStore \<Rightarrow> string \<Rightarrow> Date \<Rightarrow> int \<Rightarrow> (error + TimeInfoDto) \<times> timeControlStore" where
  "setCurrentTime store sid newTime now =
     (case getTimeControlData store sid of
        Inl e \<Rightarrow> (Inl e, store)
      | Inr d \<Rightarrow>
         (case newTime of
            Invalid_Date \<Rightarrow> (Inl InvalidTimestamp, store)
          | Time_Value t \<Rightarrow>
             (let d1 = d\<lparr>currentTime := t, lastUpdateRealTime := now\<rparr>
              in (Inr (timeInfo sid d1), store(sid \<mapsto> d1)))))"

section \<open>Strings and the character-code hash\<close>

text \<open>
  Token identifiers are strings over the code units 0 to 255. On these, \<open>toLowerCase\<close>
  maps \<open>A\<close> to \<open>Z\<close> and the upper-case letters of Latin-1 to their lower-case forms and
  leaves every other unit alone.
\<close>

definition toLowerCase_char :: "char \<Rightarrow> char" where
  "toLowerCase_char c =
     (let n = (of_char c :: nat)
      in if (65 \<le> n \<and> n \<le> 90) \<or> (192 \<le> n \<and> n \<le> 222 \<and> n \<noteq> 215)
         then char_of (n + 32) else c)"

definition toLowerCase :: "string \<Rightarrow> string" where
  "toLowerCase str = map toLowerCase_char str"

text \<open>\<open>String.prototype.includes\<close>: the pattern occurs as a contiguous substring.\<close>

fun str_includes :: "string \<Rightarrow> string \<Rightarrow> bool" where
  "str_includes [] pat = (pat = [])"
| "str_includes (c # cs) pat = (take (length pat) (c # cs) = pat \<or> str_includes cs pat)"

text \<open>
  \<open>simpleHash\<close>, the same in both services. Each round computes
  \<open>((hash << 5) - hash) + char\<close> and \<open>hash & hash\<close> brings the result back to a signed
  32-bit integer, so the loop is arithmetic on 32-bit words; \<open>Math.abs\<close> is taken on the
  signed value of the last word, as a number.
\<close>

fun simpleHash_loop :: "32 word \<Rightarrow> string \<Rightarrow> 32 word" where
  "simpleHash_loop hash [] = hash"
| "simpleHash_loop hash (c # cs) =
     simpleHash_loop ((push_bit 5 hash - hash) + of_nat (of_char c)) cs"

definition simpleHash :: "string \<Rightarrow> int" where
  "simpleHash str = \<bar>sint (simpleHash_loop 0 str)\<bar>"

section \<open>ScenariosService\<close>

text \<open>
  The \<open>parameters\<close> object: each property is absent or a finite number. The pattern
  \<open>parameters.x || d\<close> takes the default \<open>d\<close> when the property is absent or zero.
\<close>

record ScenarioParameters =
  duration :: "real option"
  intensity :: "real option"
  recovery_speed :: "real option"
  range_width :: "real option"
  direction_bias :: "real option"

definition or_default :: "real option \<Rightarrow> real \<Rightarrow> real" where
  "or_default x d = (case x of None \<Rightarrow> d | Some v \<Rightarrow> (if v = 0 then d else v))"

definition noParameters :: ScenarioParameters where
  "noParameters = \<lparr>duration = None, intensity = None, recovery_speed = None,
                     range_width = None, direction_bias = None\<rparr>"

record ScenarioConfig =
  description :: string
  cfg_duration :: real
  cfg_intensity :: "real option"
  cfg_recovery_speed :: "real option"
  cfg_range_width :: "real option"
  cfg_direction_bias :: "real option"
  difficulty :: string

definition configs :: "ScenarioParameters \<Rightarrow> (string \<times> ScenarioConfig) list" where
  "configs parameters =
    [(''bull_market'',
        \<lparr>description = ''Sustained upward price movement with low volatility'',
         cfg_duration = or_default (duration parameters) (7 * 24 * 60 * 60),
         cfg_intensity = Some (or_default (intensity parameters) (5 / 10)),
         cfg_recovery_speed = None, cfg_range_width = None, cfg_direction_bias = None,
         difficulty = ''easy''\<rparr>),
     (''bear_market'',
        \<lparr>description = ''Sustained downward price movement with moderate volatility'',
         cfg_duration = or_default (duration parameters) (14 * 24 * 60 * 60),
         cfg_intensity = Some (or_default (intensity parameters) (5 / 10)),
         cfg_recovery_speed = None, cfg_range_width = None, cfg_direction_bias = None,
         difficulty = ''medium''\<rparr>),
     (''market_crash'',
        \<lparr>description = ''Sudden sharp decline in prices with high volatility'',
         cfg_duration = 24 * 60 * 60,
         cfg_intensity = Some (or_default (intensity parameters) (7 / 10)),
         cfg_recovery_speed = Some (or_default (recovery_speed parameters) (3 / 10)),
         cfg_range_width = None, cfg_direction_bias = None,
         difficulty = ''hard''\<rparr>),
     (''sideways_market'',
        \<lparr>description = ''Range-bound price movement with low volatility'',
         cfg_duration = or_default (duration parameters) (30 * 24 * 60 * 60),
         cfg_intensity = None, cfg_recovery_speed = None,
         cfg_range_width = Some (or_default (range_width parameters) (1 / 10)),
         cfg_direction_bias = None,
         difficulty = ''medium''\<rparr>),
     (''high_volatility'',
        \<lparr>description = ''Erratic price movements with high volatility'',
         cfg_duration = or_default (duration parameters) (3 * 24 * 60 * 60),
         cfg_intensity = Some (or_default (intensity parameters) (8 / 10)),
         cfg_recovery_speed = None, cfg_range_width = None,
         cfg_direction_bias = Some (or_default (direction_bias parameters) 0),
         difficulty = ''hard''\<rparr>),
     (''liquidity_crisis'',
        \<lparr>description = ''Reduced market depth and wider spreads'',
         cfg_duration = or_default (duration parameters) (2 * 24 * 60 * 60),
         cfg_intensity = Some (or_default (intensity parameters) (6 / 10)),
         cfg_recovery_speed = None, cfg_range_width = None, cfg_direction_bias = None,
         difficulty = ''expert''\<rparr>),
     (''flash_crash'',
        \<lparr>description = ''Extremely rapid price decline followed by recovery'',
         cfg_duration = 4 * 60 * 60,
         cfg_intensity = Some (or_default (intensity parameters) (9 / 10)),
         cfg_recovery_speed = Some (or_default (recovery_speed parameters) (5 / 10)),
         cfg_range_width = None, cfg_direction_bias = None,
         difficulty = ''expert''\<rparr>)]"

text \<open>
  \<open>configs[scenarioType] || configs['bull_market']\<close>. The table is an object literal,
  so the lookup of a name that \<open>Object.prototype\<close> defines finds that inherited member,
  which is truthy and has no \<open>duration\<close>. The lookup of \<open>bull_market\<close> itself always
  finds its entry.
\<close>

definition objectPrototypeKeys :: "string list" where
  "objectPrototypeKeys =
     [''constructor'', ''__proto__'', ''hasOwnProperty'', ''isPrototypeOf'',
      ''propertyIsEnumerable'', ''toLocaleString'', ''toString'', ''valueOf'',
      ''__defineGetter__'', ''__defineSetter__'', ''__lookupGetter__'', ''__lookupSetter__'']"

datatype config_lookup = Config ScenarioConfig | InheritedMember

definition getScenarioConfig :: "string \<Rightarrow> ScenarioParameters \<Rightarrow> config_lookup" where
  "getScenarioConfig scenarioType parameters =
     (case map_of (configs parameters) scenarioType of
        Some c \<Rightarrow> Config c
      | None \<Rightarrow>
         (if scenarioType \<in> set objectPrototypeKeys then InheritedMember
          else (case map_of (configs parameters) ''bull_market'' of
                  Some c \<Rightarrow> Config c | None \<Rightarrow> InheritedMember)))"

text \<open>
  The scenario types that \<open>validateScenarioType\<close> accepts. \<open>initialize\<close> calls that
  check; \<open>getScenarioData\<close> and \<open>generateMarketData\<close> do not.
\<close>

definition validScenarios :: "string list" where
  "validScenarios =
     [''bull_market'', ''bear_market'', ''market_crash'', ''sideways_market'',
      ''high_volatility'', ''liquidity_crisis'', ''flash_crash'']"

text \<open>Locals that several of the functions below compute in the same way.\<close>

definition crashPoint :: "real \<Rightarrow> real" where
  "crashPoint progress = min 1 (progress / (2 / 10))"

definition flashCrashPhase :: "real \<Rightarrow> real" where
  "flashCrashPhase progress =
     (if progress < 1 / 10 then 0
      else if progress < 3 / 10 then (progress - 1 / 10) / (2 / 10) else 1)"

definition flashCrashRecovery :: "real \<Rightarrow> real" where
  "flashCrashRecovery progress = (if progress < 3 / 10 then 0 else (progress - 3 / 10) / (7 / 10))"

record MarketMetrics =
  volatilityIndex :: real
  liquidityIndex :: real
  sentimentIndex :: real

text \<open>The \<open>switch\<close> of \<open>generateMarketData\<close> that sets the market metrics.\<close>

definition marketMetricsFor :: "string \<Rightarrow> real \<Rightarrow> MarketMetrics" where
  "marketMetricsFor scenarioType progress =
     (if scenarioType = ''bull_market'' then
        \<lparr>volatilityIndex = 20 + 10 * sin (progress * pi),
         liquidityIndex = 80 + 10 * sin (progress * pi),
         sentimentIndex = 70 + 20 * progress\<rparr>
      else if scenarioType = ''bear_market'' then
        \<lparr>volatilityIndex = 40 + 20 * sin (progress * pi),
         liquidityIndex = 60 - 20 * progress,
         sentimentIndex = 30 - 20 * progress\<rparr>
      else if scenarioType = ''market_crash'' then
        (let cp = crashPoint progress
         in \<lparr>volatilityIndex = 50 + 50 * exp (- 5 * (cp - 5 / 10) * (cp - 5 / 10)),
             liquidityIndex = 80 - 60 * exp (- 5 * (cp - 5 / 10) * (cp - 5 / 10)),
             sentimentIndex = 50 - 40 * exp (- 5 * (cp - 5 / 10) * (cp - 5 / 10))\<rparr>)
      else if scenarioType = ''sideways_market'' then
        \<lparr>volatilityIndex = 30 + 10 * sin (progress * 10 * pi),
         liquidityIndex = 70 + 10 * sin (progress * 5 * pi),
         sentimentIndex = 50 + 10 * sin (progress * 8 * pi)\<rparr>
      else if scenarioType = ''high_volatility'' then
        \<lparr>volatilityIndex = 70 + 30 * sin (progress * 20 * pi),
         liquidityIndex = 50 + 20 * sin (progress * 15 * pi),
         sentimentIndex = 40 + 30 * sin (progress * 10 * pi)\<rparr>
      else if scenarioType = ''liquidity_crisis'' then
        \<lparr>volatilityIndex = 60 + 20 * progress,
         liquidityIndex = 70 - 60 * progress,
         sentimentIndex = 40 - 30 * progress\<rparr>
      else if scenarioType = ''flash_crash'' then
        (let ph = flashCrashPhase progress; rc = flashCrashRecovery progress
         in \<lparr>volatilityIndex = 30 + 70 * exp (- 10 * (ph - 5 / 10) * (ph - 5 / 10)),
             liquidityIndex = 80 - 70 * ph + 50 * rc,
             sentimentIndex = 60 - 50 * ph + 30 * rc\<rparr>)
      else
        \<lparr>volatilityIndex = 20 + 10 * sin (progress * pi),
         liquidityIndex = 80 + 10 * sin (progress * pi),
         sentimentIndex = 70 + 20 * progress\<rparr>)"

definition getBasePriceForToken :: "string \<Rightarrow> real" where
  "getBasePriceForToken token =
     (let hash = simpleHash token
      in if str_includes (toLowerCase token) ''btc'' then 30000 + real_of_int (hash mod 20000)
         else if str_includes (toLowerCase token) ''eth'' then 1500 + real_of_int (hash mod 2000)
         else if str_includes (toLowerCase token) ''usdc'' \<or> str_includes (toLowerCase token) ''usdt''
           then 98 / 100 + real_of_int (hash mod 5) / 100
         else 1 / 10 + real_of_int (hash mod 1000) / 10)"

text \<open>
  \<open>getPriceModifier\<close>. The flash-crash branch reads \<open>parameters.recovery_speed\<close> without
  a default: when the property is absent the product, and with it the result, is \<open>NaN\<close>.
\<close>

definition getPriceModifier :: "string \<Rightarrow> ScenarioParameters \<Rightarrow> real \<Rightarrow> number" where
  "getPriceModifier scenarioType parameters progress =
     (let intens = or_default (intensity parameters) (5 / 10)
      in if scenarioType = ''bull_market'' then Num (1 + intens * progress)
         else if scenarioType = ''bear_market'' then Num (1 - intens * (7 / 10) * progress)
         else if scenarioType = ''market_crash'' then
           (let cp = crashPoint progress;
                recoveryPoint = max 0 ((progress - 2 / 10) / (8 / 10));
                recoverySpeed = or_default (recovery_speed parameters) (3 / 10);
                crashEffect = intens * (1 - exp (- 5 * cp));
                recoveryEffect = recoverySpeed * recoveryPoint
            in Num (1 - crashEffect + crashEffect * recoveryEffect))
         else if scenarioType = ''sideways_market'' then
           (let rangeWidth = or_default (range_width parameters) (1 / 10)
            in Num (1 + rangeWidth * sin (progress * 10 * pi)))
         else if scenarioType = ''high_volatility'' then
           (let directionBias = or_default (direction_bias parameters) 0
            in Num (1 + intens * (5 / 10) * sin (progress * 20 * pi) + directionBias * progress))
         else if scenarioType = ''liquidity_crisis'' then
           Num (1 - intens * (3 / 10) * progress + intens * (2 / 10) * sin (progress * 15 * pi))
         else if scenarioType = ''flash_crash'' then
           (let ph = flashCrashPhase progress; rc = flashCrashRecovery progress;
                crashDepth = intens * (7 / 10)
            in case recovery_speed parameters of
                 None \<Rightarrow> NaN
               | Some rs \<Rightarrow> Num (1 - crashDepth * ph + crashDepth * rs * rc))
         else Num 1)"

definition getVolumeModifier :: "string \<Rightarrow> ScenarioParameters \<Rightarrow> real \<Rightarrow> real" where
  "getVolumeModifier scenarioType parameters progress =
     (let intens = or_default (intensity parameters) (5 / 10)
      in if scenarioType = ''bull_market'' then 1 + intens * progress
         else if scenarioType = ''bear_market'' then 1 + intens * progress * (1 - progress)
         else if scenarioType = ''market_crash'' then
           (let cp = crashPoint progress
            in 1 + intens * 3 * exp (- 10 * (cp - 5 / 10) * (cp - 5 / 10)))
         else if scenarioType = ''sideways_market'' then
           7 / 10 + (5 / 10) * (sin (progress * 10 * pi))\<^sup>2
         else if scenarioType = ''high_volatility'' then
           15 / 10 + intens * sin (progress * 20 * pi)
         else if scenarioType = ''liquidity_crisis'' then 1 - intens * (7 / 10) * progress
         else if scenarioType = ''flash_crash'' then
           (let ph = flashCrashPhase progress; rc = flashCrashRecovery progress
            in 1 + intens * 4 * exp (- 10 * (ph - 5 / 10) * (ph - 5 / 10))
                 + intens * 2 * exp (- 10 * (rc - 3 / 10) * (rc - 3 / 10)))
         else 1)"

definition getDepthModifier :: "string \<Rightarrow> ScenarioParameters \<Rightarrow> real \<Rightarrow> real" where
  "getDepthModifier scenarioType parameters progress =
     (let intens = or_default (intensity parameters) (5 / 10)
      in if scenarioType = ''bull_market'' then 1 + intens * (5 / 10) * progress
         else if scenarioType = ''bear_market'' then 1 - intens * (3 / 10) * progress
         else if scenarioType = ''market_crash'' then
           (let cp = crashPoint progress
            in 1 - intens * (8 / 10) * exp (- 5 * (cp - 5 / 10) * (cp - 5 / 10)))
         else if scenarioType = ''sideways_market'' then 1 + (1 / 10) * sin (progress * 10 * pi)
         else if scenarioType = ''high_volatility'' then
           1 + intens * (5 / 10) * sin (progress * 15 * pi)
         else if scenarioType = ''liquidity_crisis'' then 1 - intens * (8 / 10) * progress
         else if scenarioType = ''flash_crash'' then
           (let ph = flashCrashPhase progress; rc = flashCrashRecovery progress
            in 1 - intens * (9 / 10) * ph + intens * (7 / 10) * rc)
         else 1)"

text \<open>\<open>getPriceChange\<close> draws one value \<open>r\<close> from \<open>Math.random()\<close> in every branch.\<close>

definition getPriceChange :: "string \<Rightarrow> ScenarioParameters \<Rightarrow> real \<Rightarrow> real \<Rightarrow> real" where
  "getPriceChange scenarioType parameters progress r =
     (let intens = or_default (intensity parameters) (5 / 10)
      in if scenarioType = ''bull_market'' then intens * 5 + intens * 5 * r
         else if scenarioType = ''bear_market'' then - intens * 5 - intens * 5 * r
         else if scenarioType = ''market_crash'' then
           (if crashPoint progress < 8 / 10 then - intens * 20 - intens * 10 * r
            else intens * 5 + intens * 5 * r)
         else if scenarioType = ''sideways_market'' then (r * 2 - 1) * intens * 3
         else if scenarioType = ''high_volatility'' then (r * 2 - 1) * intens * 15
         else if scenarioType = ''liquidity_crisis'' then - intens * 8 - intens * 7 * r
         else if scenarioType = ''flash_crash'' then
           (if flashCrashPhase progress < 5 / 10 then - intens * 30 - intens * 20 * r
            else intens * 15 + intens * 10 * r)
         else (r * 2 - 1) * 5)"

text \<open>
  Sum and product of numbers, for the price of a token, which is \<open>NaN\<close> when the price
  modifier is.
\<close>

definition sign_number :: "number \<Rightarrow> int" where
  "sign_number x =
     (case x of NaN \<Rightarrow> 0 | PosInfinity \<Rightarrow> 1 | NegInfinity \<Rightarrow> - 1 | Num r \<Rightarrow> sgn \<lfloor>sgn r\<rfloor>)"

definition mult_number :: "number \<Rightarrow> number \<Rightarrow> number" where
  "mult_number x y =
     (case (x, y) of
        (Num a, Num b) \<Rightarrow> Num (a * b)
      | (NaN, _) \<Rightarrow> NaN
      | (_, NaN) \<Rightarrow> NaN
      | _ \<Rightarrow> (let s = sign_number x * sign_number y
              in if s = 0 then NaN else if 0 < s then PosInfinity else NegInfinity))"

definition add_number :: "number \<Rightarrow> number \<Rightarrow> number" where
  "add_number x y =
     (case (x, y) of
        (Num a, Num b) \<Rightarrow> Num (a + b)
      | (NaN, _) \<Rightarrow> NaN
      | (_, NaN) \<Rightarrow> NaN
      | (PosInfinity, NegInfinity) \<Rightarrow> NaN
      | (NegInfinity, PosInfinity) \<Rightarrow> NaN
      | (PosInfinity, _) \<Rightarrow> PosInfinity
      | (_, PosInfinity) \<Rightarrow> PosInfinity
      | _ \<Rightarrow> NegInfinity)"

text \<open>The comparison \<open>x > 0\<close> of JavaScript: false on \<open>NaN\<close>.\<close>

definition gt_zero :: "number \<Rightarrow> bool" where
  "gt_zero x = (case x of NaN \<Rightarrow> False | PosInfinity \<Rightarrow> True | NegInfinity \<Rightarrow> False | Num r \<Rightarrow> 0 < r)"

datatype OrderType = Ask | Bid

record PriceLevel =
  level_price :: number
  amount :: real

text \<open>
  \<open>generateOrderBook\<close>. The values of \<open>Math.random()\<close> are the sequence \<open>random\<close>; a call
  that starts at draw \<open>k\<close> uses \<open>random (k + i)\<close> at level \<open>i\<close>.
\<close>

definition orderBookLevel :: "OrderType \<Rightarrow> number \<Rightarrow> real \<Rightarrow> nat \<Rightarrow> real \<Rightarrow> PriceLevel" where
  "orderBookLevel type pr depthModifier i r =
     (let priceOffset =
            (if type = Ask then mult_number (Num (real (i + 1) * (1 / 1000))) pr
             else mult_number (Num (- real (i + 1) * (1 / 1000))) pr);
          levelPrice = add_number pr priceOffset
      in \<lparr>level_price = levelPrice,
          amount = depthModifier * (1000 - real i * 150) * (1 + (2 / 10) * r)\<rparr>)"

definition generateOrderBook ::
  "OrderType \<Rightarrow> number \<Rightarrow> nat \<Rightarrow> real \<Rightarrow> (nat \<Rightarrow> real) \<Rightarrow> nat \<Rightarrow> PriceLevel list" where
  "generateOrderBook type pr levels depthModifier random k =
     map (\<lambda>i. orderBookLevel type pr depthModifier i (random (k + i))) [0..<levels]"

record TokenData =
  price :: number
  priceChange24h :: real
  volume :: int
  marketDepth_asks :: "PriceLevel list"
  marketDepth_bids :: "PriceLevel list"

record ScenarioMarketDataDto =
  timestamp :: int
  progress :: real
  tokens :: "string \<rightharpoonup> TokenData"
  marketMetrics :: MarketMetrics

record ScenarioDataQueryDto =
  q_scenarioType :: string
  q_parameters :: ScenarioParameters
  q_startTime :: int
  q_currentTime :: int
  q_tokens :: "string list"

text \<open>
  The assignment \<open>object[key] = value\<close> with an object as the value: the key \<open>__proto__\<close>
  sets the prototype and adds no property.
\<close>

definition assign_property :: "(string \<rightharpoonup> 'a) \<Rightarrow> string \<Rightarrow> 'a \<Rightarrow> (string \<rightharpoonup> 'a)" where
  "assign_property obj key v = (if key = ''__proto__'' then obj else obj(key \<mapsto> v))"

text \<open>
  The body of the token loop of \<open>generateMarketData\<close>. One token takes eleven draws:
  one for the price change, five for the asks and five for the bids.
\<close>

definition tokenData ::
  "string \<Rightarrow> ScenarioParameters \<Rightarrow> real \<Rightarrow> (nat \<Rightarrow> real) \<Rightarrow> nat \<Rightarrow> string \<Rightarrow> TokenData" where
  "tokenData scenarioType parameters prog random k token =
     (let basePrice = getBasePriceForToken token;
          priceModifier = getPriceModifier scenarioType parameters prog;
          pr = mult_number (Num basePrice) priceModifier;
          volumeModifier = getVolumeModifier scenarioType parameters prog;
          depthModifier = getDepthModifier scenarioType parameters prog
      in \<lparr>price = pr,
          priceChange24h = getPriceChange scenarioType parameters prog (random k),
          volume = \<lfloor>1000000 * volumeModifier\<rfloor>,
          marketDepth_asks = generateOrderBook Ask pr 5 depthModifier random (k + 1),
          marketDepth_bids = generateOrderBook Bid pr 5 depthModifier random (k + 6)\<rparr>)"

fun generateTokens ::
  "string \<Rightarrow> ScenarioParameters \<Rightarrow> real \<Rightarrow> (nat \<Rightarrow> real) \<Rightarrow> nat \<Rightarrow> string list
     \<Rightarrow> (string \<rightharpoonup> TokenData) \<Rightarrow> (string \<rightharpoonup> TokenData)" where
  "generateTokens scenarioType parameters prog random k [] acc = acc"
| "generateTokens scenarioType parameters prog random k (token # rest) acc =
     generateTokens scenarioType parameters prog random (k + 11) rest
       (assign_property acc token (tokenData scenarioType parameters prog random k token))"

text \<open>
  \<open>generateMarketData\<close>, with the time of \<open>new Date()\<close> as \<open>now\<close>. Its first statement
  calls \<open>getScenarioConfig\<close> and never uses the result.
\<close>

definition generateMarketData ::
  "string \<Rightarrow> ScenarioParameters \<Rightarrow> real \<Rightarrow> string list \<Rightarrow> int \<Rightarrow> (nat \<Rightarrow> real)
     \<Rightarrow> ScenarioMarketDataDto" where
  "generateMarketData scenarioType parameters prog toks now random =
     \<lparr>timestamp = now, progress = prog,
      tokens = generateTokens scenarioType parameters prog random 0 toks Map.empty,
      marketMetrics = marketMetricsFor scenarioType prog\<rparr>"

text \<open>
  \<open>getScenarioData\<close>, on a query whose two timestamps parse. When the configuration
  lookup finds an inherited member, the duration is undefined and the progress \<open>NaN\<close>;
  the model does not follow that run and returns \<open>None\<close>.
\<close>

definition getScenarioData ::
  "ScenarioDataQueryDto \<Rightarrow> int \<Rightarrow> (nat \<Rightarrow> real) \<Rightarrow> ScenarioMarketDataDto option" where
  "getScenarioData params now random =
     (case getScenarioConfig (q_scenarioType params) (q_parameters params) of
        InheritedMember \<Rightarrow> None
      | Config scenarioConfig \<Rightarrow>
         (let prog = min 1 (max 0 (real_of_int (q_currentTime params - q_startTime params)
                                     / (cfg_duration scenarioConfig * 1000)))
          in Some (generateMarketData (q_scenarioType params) (q_parameters params) prog
                     (q_tokens params) now random)))"

section \<open>HistoricalService\<close>

text \<open>
  The historical price hashes the token followed by the ISO string of the timestamp.
  The formatting \<open>fmt\<close> of a time value as a string belongs to the language and is a
  parameter of the model.
\<close>

definition dateToISOString :: "(int \<Rightarrow> string) \<Rightarrow> Date \<Rightarrow> error + string" where
  "dateToISOString fmt d =
     (case d of Invalid_Date \<Rightarrow> Inl RangeError_InvalidTimeValue | Time_Value t \<Rightarrow> Inr (fmt t))"

definition historical_getBasePriceForToken ::
  "(int \<Rightarrow> string) \<Rightarrow> string \<Rightarrow> Date \<Rightarrow> error + real" where
  "historical_getBasePriceForToken fmt token ts =
     (case dateToISOString fmt ts of
        Inl e \<Rightarrow> Inl e
      | Inr str \<Rightarrow>
         (let hash = simpleHash (token @ str)
          in Inr (if str_includes (toLowerCase token) ''btc''
                    then 30000 + real_of_int (hash mod 20000)
                  else if str_includes (toLowerCase token) ''eth''
                    then 1500 + real_of_int (hash mod 2000)
                  else if str_includes (toLowerCase token) ''usdc''
                          \<or> str_includes (toLowerCase token) ''usdt''
                    then 98 / 100 + real_of_int (hash mod 5) / 100
                  else 1 / 10 + real_of_int (hash mod 1000) / 10)))"

record HistoricalTokenData =
  h_price :: real
  h_volume :: int
  h_marketCap :: real
  h_supply :: int

record HistoricalMarketDataDto =
  h_timestamp :: string
  h_tokens :: "string \<rightharpoonup> HistoricalTokenData"
  h_totalVolume :: int
  h_volatilityIndex :: real

text \<open>The token loop of \<open>getHistoricalData\<close>: three draws for each token.\<close>

fun historicalTokens ::
  "(int \<Rightarrow> string) \<Rightarrow> Date \<Rightarrow> (nat \<Rightarrow> real) \<Rightarrow> nat \<Rightarrow> string list
     \<Rightarrow> (string \<rightharpoonup> HistoricalTokenData) \<Rightarrow> error + (string \<rightharpoonup> HistoricalTokenData)" where
  "historicalTokens fmt ts random k [] acc = Inr acc"
| "historicalTokens fmt ts random k (token # rest) acc =
     (case historical_getBasePriceForToken fmt token ts of
        Inl e \<Rightarrow> Inl e
      | Inr basePrice \<Rightarrow>
         historicalTokens fmt ts random (k + 3) rest
           (assign_property acc token
              \<lparr>h_price = basePrice,
               h_volume = \<lfloor>random k * 10000000\<rfloor>,
               h_marketCap = basePrice * real_of_int \<lfloor>random (k + 1) * 1000000000\<rfloor>,
               h_supply = \<lfloor>random (k + 2) * 1000000000\<rfloor>\<rparr>))"

definition getHistoricalData ::
  "(int \<Rightarrow> string) \<Rightarrow> Date \<Rightarrow> string list \<Rightarrow> (nat \<Rightarrow> real)
     \<Rightarrow> error + HistoricalMarketDataDto" where
  "getHistoricalData fmt ts toks random =
     (case dateToISOString fmt ts of
        Inl e \<Rightarrow> Inl e
      | Inr str \<Rightarrow>
         (case historicalTokens fmt ts random 2 toks Map.empty of
            Inl e \<Rightarrow> Inl e
          | Inr m \<Rightarrow>
             Inr \<lparr>h_timestamp = str, h_tokens = m,
                  h_totalVolume = \<lfloor>random 0 * 1000000000\<rfloor>,
                  h_volatilityIndex = random 1 * 100\<rparr>))"

section \<open>SimulationService\<close>

datatype SimulationStatus = Sim_initialized | Sim_running | Sim_paused | Sim_completed

record SimulationStateDto =
  state_simulationId :: string
  state_currentTime :: int
  state_timeScale :: real
  state_status :: SimulationStatus
  marketState_tokens :: "string \<rightharpoonup> real"
  marketState_gasPrice :: real
  marketState_blockNumber :: int
  agentState_balance :: "string \<rightharpoonup> string"
  agentState_pendingActions :: nat
  agentState_completedActions :: nat

text \<open>
  The service keeps no record of its own; the only store behind it is the one of the
  time-control service, which the two operations below receive and return. Neither
  reads it. \<open>getSimulationState\<close> builds its answer from the clock and three draws.
\<close>

definition getSimulationState ::
  "timeControlStore \<Rightarrow> string \<Rightarrow> int \<Rightarrow> (nat \<Rightarrow> real)
     \<Rightarrow> (error + SimulationStateDto) \<times> timeControlStore" where
  "getSimulationState store sid now random =
     (Inr \<lparr>state_simulationId = sid, state_currentTime = now, state_timeScale = 1,
           state_status = Sim_running,
           marketState_tokens =
             [''ETH'' \<mapsto> 2500 + random 0 * 100, ''BTC'' \<mapsto> 40000 + random 1 * 1000,
              ''USDC'' \<mapsto> 1],
           marketState_gasPrice = 50 + random 2 * 20,
           marketState_blockNumber = 12345678,
           agentState_balance = [''ETH'' \<mapsto> ''1.5'', ''USDC'' \<mapsto> ''5000''],
           agentState_pendingActions = 0, agentState_completedActions = 5\<rparr>,
      store)"

definition terminateSimulation ::
  "timeControlStore \<Rightarrow> string \<Rightarrow> (error + bool) \<times> timeControlStore" where
  "terminateSimulation store sid = (Inr True, store)"

section \<open>Predicates and sample values for the properties\<close>

text \<open>The comparison \<open>x < y\<close> of JavaScript: false when either side is \<open>NaN\<close>.\<close>

definition lt_number :: "number \<Rightarrow> number \<Rightarrow> bool" where
  "lt_number x y =
     (case (x, y) of
        (Num a, Num b) \<Rightarrow> a < b
      | (NaN, _) \<Rightarrow> False
      | (_, NaN) \<Rightarrow> False
      | (NegInfinity, NegInfinity) \<Rightarrow> False
      | (NegInfinity, _) \<Rightarrow> True
      | (_, PosInfinity) \<Rightarrow> (x \<noteq> PosInfinity)
      | _ \<Rightarrow> False)"

text \<open>
  What every returned \<open>TimeInfoDto\<close> is expected to satisfy, and its reading on the
  result of an operation: an operation that throws returns no \<open>TimeInfoDto\<close>.
\<close>

definition factor_matches_status :: "TimeInfoDto \<Rightarrow> bool" where
  "factor_matches_status i =
     (realTimeFactor i = (if info_status i = Running then info_timeScale i else 0))"

definition returned_info_ok :: "(error + TimeInfoDto) \<times> timeControlStore \<Rightarrow> bool" where
  "returned_info_ok r = (case fst r of Inl e \<Rightarrow> True | Inr i \<Rightarrow> factor_matches_status i)"

text \<open>
  The double that \<open>updateCurrentTime\<close> passes to \<open>setTime\<close> for a clock that stands at
  \<open>t\<close> and runs at the given scale, after the given count of elapsed wall-clock
  milliseconds.
\<close>

definition scaledAdvance :: "int \<Rightarrow> int \<Rightarrow> real \<Rightarrow> real" where
  "scaledAdvance t elapsed scale =
     roundToDouble (real_of_int t
                      + roundToDouble (roundToDouble (real_of_int elapsed) * roundToDouble scale))"

text \<open>
  A clock as \<open>initialize\<close> leaves it at wall time 0, with start time \<open>t\<close> and scale \<open>s\<close>,
  and the store that holds it under the id \<open>sim\<close>.
\<close>

definition demoClock :: "real \<Rightarrow> int \<Rightarrow> TimeControlData" where
  "demoClock s t =
     \<lparr>simulationId = ''sim'', startTime = t, currentTime = t, timeScale = s,
      status = Running, lastUpdateRealTime = 0\<rparr>"

definition demoStore :: "real \<Rightarrow> int \<Rightarrow> timeControlStore" where
  "demoStore s t = [''sim'' \<mapsto> demoClock s t]"

text \<open>Two sequences of draws: the one without jitter, and a constant one.\<close>

definition noJitter :: "nat \<Rightarrow> real" where
  "noJitter i = 0"

definition halfJitter :: "nat \<Rightarrow> real" where
  "halfJitter i = 1 / 2"

text \<open>
  The ranges of the scenario parameters: a property that is present lies in its range.
\<close>

definition in_range :: "real option \<Rightarrow> real \<Rightarrow> real \<Rightarrow> bool" where
  "in_range x lo hi = (case x of None \<Rightarrow> True | Some v \<Rightarrow> lo \<le> v \<and> v \<le> hi)"

definition parametersInRange :: "ScenarioParameters \<Rightarrow> bool" where
  "parametersInRange ps =
     (in_range (intensity ps) 0 1 \<and> in_range (direction_bias ps) (- 1) 1 \<and>
      in_range (range_width ps) 0 1 \<and> in_range (recovery_speed ps) 0 1)"

text \<open>
  A condition that suffices for a positive price modifier: the oscillation of the
  sideways market has width below 1, half the intensity of the high-volatility
  scenario plus its downward bias stays below 1, and the flash crash is given its
  recovery speed.
\<close>

definition swingBelowOne :: "string \<Rightarrow> ScenarioParameters \<Rightarrow> bool" where
  "swingBelowOne scenarioType ps =
     (if scenarioType = ''sideways_market'' then or_default (range_width ps) (1 / 10) < 1
      else if scenarioType = ''high_volatility'' then
        or_default (intensity ps) (5 / 10) / 2 - min 0 (or_default (direction_bias ps) 0) < 1
      else if scenarioType = ''flash_crash'' then recovery_speed ps \<noteq> None
      else True)"

definition crashParameters :: ScenarioParameters where
  "crashParameters = noParameters\<lparr>intensity := Some (7 / 10)\<rparr>"

definition volatileParameters :: ScenarioParameters where
  "volatileParameters =
     \<lparr>duration = None, intensity = Some 1, recovery_speed = Some (3 / 10),
      range_width = Some (1 / 10), direction_bias = Some (- 1)\<rparr>"

text \<open>A query seven days after its start, for the token \<open>ETH\<close> and no parameters.\<close>

definition demoQuery :: "string \<Rightarrow> ScenarioDataQueryDto" where
  "demoQuery scenarioType =
     \<lparr>q_scenarioType = scenarioType, q_parameters = noParameters, q_startTime = 0,
      q_currentTime = 604800000, q_tokens = [''ETH'']\<rparr>"

definition priceOf :: "string \<Rightarrow> ScenarioMarketDataDto \<Rightarrow> number option" where
  "priceOf token md = map_option price (tokens md token)"

definition scenarioPriceOf :: "string \<Rightarrow> ScenarioMarketDataDto option \<Rightarrow> number option" where
  "scenarioPriceOf token r = (case r of None \<Rightarrow> None | Some md \<Rightarrow> priceOf token md)"

definition scenarioVolumeOf :: "string \<Rightarrow> ScenarioMarketDataDto option \<Rightarrow> int option" where
  "scenarioVolumeOf token r =
     (case r of None \<Rightarrow> None | Some md \<Rightarrow> map_option volume (tokens md token))"

text \<open>The price that a result of \<open>getHistoricalData\<close> reports for a token.\<close>

definition historicalPriceOf ::
  "string \<Rightarrow> error + HistoricalMarketDataDto \<Rightarrow> error + real option" where
  "historicalPriceOf token r =
     (case r of Inl e \<Rightarrow> Inl e | Inr d \<Rightarrow> Inr (map_option h_price (h_tokens d token)))"

definition demoFormat :: "int \<Rightarrow> string" where
  "demoFormat t = ''2021-01-01T00:00:00.000Z''"

section \<open>Properties of rounding to doubles\<close>

lemma roundTiesToEven_close: "\<bar>real_of_int (roundTiesToEven y) - y\<bar> \<le> 1 / 2"
  unfolding roundTiesToEven_def Let_def by (auto; linarith)

lemma roundTiesToEven_of_int: "roundTiesToEven (real_of_int n) = n"
  by (simp add: roundTiesToEven_def)

lemma exponent_bounds:
  assumes "x \<noteq> 0"
  shows "2 powr real_of_int \<lfloor>log 2 \<bar>x\<bar>\<rfloor> \<le> \<bar>x\<bar>"
    and "\<bar>x\<bar> < 2 powr real_of_int (\<lfloor>log 2 \<bar>x\<bar>\<rfloor> + 1)"
proof -
  have pos: "0 < \<bar>x\<bar>" using assms by simp
  have c: "2 powr log 2 \<bar>x\<bar> = \<bar>x\<bar>" using pos by simp
  have "2 powr real_of_int \<lfloor>log 2 \<bar>x\<bar>\<rfloor> \<le> 2 powr log 2 \<bar>x\<bar>"
    by (rule powr_mono) simp_all
  then show "2 powr real_of_int \<lfloor>log 2 \<bar>x\<bar>\<rfloor> \<le> \<bar>x\<bar>"
    unfolding c .
  have "log 2 \<bar>x\<bar> < real_of_int (\<lfloor>log 2 \<bar>x\<bar>\<rfloor> + 1)" by linarith
  then have "2 powr log 2 \<bar>x\<bar> < 2 powr real_of_int (\<lfloor>log 2 \<bar>x\<bar>\<rfloor> + 1)"
    by (rule powr_less_mono) simp
  then show "\<bar>x\<bar> < 2 powr real_of_int (\<lfloor>log 2 \<bar>x\<bar>\<rfloor> + 1)"
    unfolding c .
qed

lemma exponent_unique:
  assumes "2 powr real_of_int e \<le> \<bar>x\<bar>" and "\<bar>x\<bar> < 2 powr real_of_int (e + 1)"
  shows "\<lfloor>log 2 \<bar>x\<bar>\<rfloor> = e"
proof -
  have "0 < (2::real) powr real_of_int e" by simp
  then have pos: "0 < \<bar>x\<bar>" using assms(1) by linarith
  have "real_of_int e \<le> log 2 \<bar>x\<bar>" using assms(1) pos by (simp add: le_log_iff)
  moreover have "log 2 \<bar>x\<bar> < real_of_int (e + 1)"
    using assms(2) pos by (simp add: log_less_iff)
  ultimately show ?thesis by linarith
qed

text \<open>The relative error of one rounding is at most \<open>2^-53\<close>.\<close>

lemma roundToDouble_error: "\<bar>roundToDouble x - x\<bar> \<le> (1 / 2 ^ 53) * \<bar>x\<bar>"
proof (cases "x = 0")
  case True
  then show ?thesis by (simp add: roundToDouble_def)
next
  case False
  define e where "e = \<lfloor>log 2 \<bar>x\<bar>\<rfloor>"
  define u where "u = 2 powr real_of_int (e - 52)"
  have u0: "0 < u" by (simp add: u_def)
  have "u = 2 powr real_of_int e / 2 ^ 52"
    by (simp add: u_def powr_diff)
  moreover have "2 powr real_of_int e \<le> \<bar>x\<bar>"
    using exponent_bounds(1)[OF False] by (simp add: e_def)
  ultimately have u1: "u \<le> \<bar>x\<bar> / 2 ^ 52" by (simp add: divide_right_mono)
  have r: "roundToDouble x = u * real_of_int (roundTiesToEven (x / u))"
    using False by (simp add: roundToDouble_def e_def u_def Let_def)
  have "roundToDouble x - x = u * (real_of_int (roundTiesToEven (x / u)) - x / u)"
    using u0 by (simp add: r algebra_simps)
  then have "\<bar>roundToDouble x - x\<bar> = u * \<bar>real_of_int (roundTiesToEven (x / u)) - x / u\<bar>"
    using u0 by (simp add: abs_mult)
  also have "\<dots> \<le> u * (1 / 2)"
    using u0 roundTiesToEven_close[of "x / u"] by (intro mult_left_mono) auto
  also have "\<dots> \<le> (\<bar>x\<bar> / 2 ^ 52) * (1 / 2)"
    using u1 by (intro mult_right_mono) auto
  also have "\<dots> = (1 / 2 ^ 53) * \<bar>x\<bar>" by simp
  finally show ?thesis .
qed

text \<open>
  Evaluation: when \<open>|x| * 2^k\<close> lies between \<open>2^52\<close> and \<open>2^53\<close>, the double nearest to \<open>x\<close>
  is the nearest multiple of \<open>2^-k\<close>.
\<close>

lemma roundToDouble_scaled:
  assumes "2 ^ 52 \<le> \<bar>x\<bar> * 2 ^ k" and "\<bar>x\<bar> * 2 ^ k < 2 ^ 53"
  shows "roundToDouble x = real_of_int (roundTiesToEven (x * 2 ^ k)) / 2 ^ k"
proof -
  have x0: "x \<noteq> 0" using assms(1) by auto
  have p: "(2::real) powr real_of_int (52 - int k) = 2 ^ 52 / 2 ^ k"
    by (simp add: powr_diff powr_realpow)
  have q: "(2::real) powr real_of_int (52 - int k + 1) = 2 ^ 53 / 2 ^ k"
    by (simp add: powr_diff powr_realpow powr_add)
  have "2 powr real_of_int (52 - int k) \<le> \<bar>x\<bar>"
    unfolding p using assms(1) by (simp add: divide_le_eq)
  moreover have "\<bar>x\<bar> < 2 powr real_of_int (52 - int k + 1)"
    unfolding q using assms(2) by (simp add: less_divide_eq)
  ultimately have e: "\<lfloor>log 2 \<bar>x\<bar>\<rfloor> = 52 - int k" by (rule exponent_unique)
  have u: "(2::real) powr (- real k) = 1 / 2 ^ k"
    by (simp add: powr_minus powr_realpow divide_simps)
  show ?thesis
    using x0 by (simp add: roundToDouble_def e u Let_def)
qed

lemma roundToDouble_zero: "roundToDouble 0 = 0"
  by (simp add: roundToDouble_def)

text \<open>Whole numbers below \<open>2^53\<close> in magnitude are doubles.\<close>

lemma roundToDouble_of_int:
  assumes "\<bar>n\<bar> < 2 ^ 53"
  shows "roundToDouble (real_of_int n) = real_of_int n"
proof (cases "n = 0")
  case True
  then show ?thesis by (simp add: roundToDouble_zero)
next
  case False
  define x where "x = real_of_int n"
  define e where "e = \<lfloor>log 2 \<bar>x\<bar>\<rfloor>"
  have x0: "x \<noteq> 0" using False by (simp add: x_def)
  have "real_of_int \<bar>n\<bar> < real_of_int (2 ^ 53)" using assms by (simp only: of_int_less_iff)
  then have x2: "\<bar>x\<bar> < 2 ^ 53" by (simp add: x_def)
  have lo: "2 powr real_of_int e \<le> \<bar>x\<bar>" and hi: "\<bar>x\<bar> < 2 powr real_of_int (e + 1)"
    using exponent_bounds[OF x0] by (simp_all add: e_def)
  have e53: "e < 53"
  proof (rule ccontr)
    assume "\<not> e < 53"
    then have "(53::real) \<le> real_of_int e" by simp
    then have "(2::real) powr 53 \<le> 2 powr real_of_int e" by (rule powr_mono) simp
    then show False using lo x2 by simp
  qed
  define k where "k = nat (52 - e)"
  have ke: "e = 52 - int k" using e53 by (simp add: k_def)
  have p: "(2::real) powr real_of_int (52 - int k) = 2 ^ 52 / 2 ^ k"
    by (simp add: powr_diff powr_realpow)
  have q: "(2::real) powr real_of_int (52 - int k + 1) = 2 ^ 53 / 2 ^ k"
    by (simp add: powr_diff powr_realpow powr_add)
  have a1: "2 ^ 52 \<le> \<bar>x\<bar> * 2 ^ k"
    using lo unfolding ke p by (simp add: divide_le_eq)
  have a2: "\<bar>x\<bar> * 2 ^ k < 2 ^ 53"
    using hi unfolding ke q by (simp add: less_divide_eq)
  have "x * 2 ^ k = real_of_int (n * 2 ^ k)" by (simp add: x_def)
  then have "roundTiesToEven (x * 2 ^ k) = n * 2 ^ k"
    by (simp only: roundTiesToEven_of_int)
  then have "roundToDouble x = real_of_int (n * 2 ^ k) / 2 ^ k"
    using roundToDouble_scaled[OF a1 a2] by simp
  then show ?thesis by (simp add: x_def)
qed

lemma roundToDouble_numeral:
  "(numeral k :: int) < 2 ^ 53 \<Longrightarrow> roundToDouble (numeral k) = numeral k"
  using roundToDouble_of_int[of "numeral k"] by simp

lemma roundToDouble_one: "roundToDouble 1 = 1"
  using roundToDouble_of_int[of 1] by simp

lemmas rounding_simps = roundToDouble_zero roundToDouble_one roundToDouble_numeral

text \<open>
  The doubles of the sample computations: the doubles nearest to 0.57 and to 0.3, and
  their products with 100 and with 10, which JavaScript prints as 56.99999999999999
  and as 3.
\<close>

lemma roundToDouble_57_percent: "roundToDouble (57 / 100) = 5134103575202365 / 2 ^ 53"
  by (rule trans[OF roundToDouble_scaled[where k = 53]]) (simp_all add: roundTiesToEven_def)

lemma roundToDouble_57_percent_times_100:
  "roundToDouble (100 * (5134103575202365 / 2 ^ 53)) = 8022036836253695 / 2 ^ 47"
  by (rule trans[OF roundToDouble_scaled[where k = 47]]) (simp_all add: roundTiesToEven_def)

lemma roundToDouble_just_below_57:
  "roundToDouble (8022036836253695 / 2 ^ 47) = 8022036836253695 / 2 ^ 47"
  by (rule trans[OF roundToDouble_scaled[where k = 47]]) (simp_all add: roundTiesToEven_def)

lemma roundToDouble_3_tenths: "roundToDouble (3 / 10) = 5404319552844595 / 2 ^ 54"
  by (rule trans[OF roundToDouble_scaled[where k = 54]]) (simp_all add: roundTiesToEven_def)

lemma roundToDouble_3_tenths_times_10:
  "roundToDouble (10 * (5404319552844595 / 2 ^ 54)) = 3"
  by (rule trans[OF roundToDouble_scaled[where k = 51]]) (simp_all add: roundTiesToEven_def)

text \<open>
  A difference, a product and a sum, each rounded with relative error at most \<open>\<epsilon>\<close>, on
  a scale that is itself rounded: the result is within \<open>8 * \<epsilon>\<close> of the exact value,
  relative to the magnitudes of the time and of the advance.
\<close>

lemma rounding_chain:
  fixes a b e c D s t \<epsilon> :: real
  assumes a: "\<bar>a - D\<bar> \<le> \<epsilon> * \<bar>D\<bar>" and b: "\<bar>b - s\<bar> \<le> \<epsilon> * \<bar>s\<bar>"
    and e: "\<bar>e - a * b\<bar> \<le> \<epsilon> * \<bar>a * b\<bar>" and c: "\<bar>c - (t + e)\<bar> \<le> \<epsilon> * \<bar>t + e\<bar>"
    and \<epsilon>: "0 \<le> \<epsilon>" "\<epsilon> \<le> 1 / 8"
  shows "\<bar>c - (t + D * s)\<bar> \<le> 8 * \<epsilon> * (\<bar>t\<bar> + \<bar>D * s\<bar>)"
proof -
  define M where "M = \<bar>D\<bar> * \<bar>s\<bar>"
  define X where "X = \<epsilon> * M"
  have M0: "0 \<le> M" by (simp add: M_def)
  have X0: "0 \<le> X" using \<epsilon>(1) M0 by (simp add: X_def)
  have Ms: "\<bar>D * s\<bar> = M" by (simp add: M_def abs_mult)
  have "\<epsilon> * X \<le> 1 * X" using \<epsilon>(2) X0 by (intro mult_right_mono) auto
  then have eX: "\<epsilon> * X \<le> X" by simp
  have "\<epsilon> * M \<le> (1 / 8) * M" using \<epsilon>(2) M0 by (rule mult_right_mono)
  then have X8: "8 * X \<le> M" by (simp add: X_def)
  have T0: "0 \<le> \<epsilon> * \<bar>t\<bar>" using \<epsilon>(1) by simp
  have A: "\<bar>a\<bar> \<le> \<bar>D\<bar> + \<epsilon> * \<bar>D\<bar>" using a by linarith
  have "0 \<le> \<bar>D\<bar> + \<epsilon> * \<bar>D\<bar>" using \<epsilon>(1) by simp
  then have "\<bar>a\<bar> * \<bar>b - s\<bar> \<le> (\<bar>D\<bar> + \<epsilon> * \<bar>D\<bar>) * (\<epsilon> * \<bar>s\<bar>)"
    using A b by (intro mult_mono) auto
  moreover have "(\<bar>D\<bar> + \<epsilon> * \<bar>D\<bar>) * (\<epsilon> * \<bar>s\<bar>) = X + \<epsilon> * X"
    by (simp add: X_def M_def algebra_simps)
  ultimately have B1: "\<bar>a\<bar> * \<bar>b - s\<bar> \<le> X + \<epsilon> * X" by simp
  have "\<bar>a - D\<bar> * \<bar>s\<bar> \<le> (\<epsilon> * \<bar>D\<bar>) * \<bar>s\<bar>" using a by (rule mult_right_mono) simp
  then have B2: "\<bar>a - D\<bar> * \<bar>s\<bar> \<le> X" by (simp add: X_def M_def algebra_simps)
  have "a * b - D * s = a * (b - s) + (a - D) * s" by (simp add: algebra_simps)
  then have "\<bar>a * b - D * s\<bar> \<le> \<bar>a * (b - s)\<bar> + \<bar>(a - D) * s\<bar>"
    by (simp only: abs_triangle_ineq)
  then have "\<bar>a * b - D * s\<bar> \<le> \<bar>a\<bar> * \<bar>b - s\<bar> + \<bar>a - D\<bar> * \<bar>s\<bar>"
    by (simp only: abs_mult)
  then have P: "\<bar>a * b - D * s\<bar> \<le> 3 * X" using B1 B2 eX by linarith
  have "\<bar>a * b\<bar> \<le> \<bar>D * s\<bar> + \<bar>a * b - D * s\<bar>" by linarith
  then have C: "\<bar>a * b\<bar> \<le> 2 * M" using P X8 Ms X0 by linarith
  have "\<epsilon> * \<bar>a * b\<bar> \<le> \<epsilon> * (2 * M)" using C \<epsilon>(1) by (rule mult_left_mono)
  then have D: "\<bar>e - a * b\<bar> \<le> 2 * X" using e by (simp add: X_def)
  have E: "\<bar>e - D * s\<bar> \<le> 5 * X" using D P by linarith
  have "\<bar>t + e\<bar> \<le> \<bar>t\<bar> + \<bar>D * s\<bar> + \<bar>e - D * s\<bar>" by linarith
  then have F: "\<bar>t + e\<bar> \<le> \<bar>t\<bar> + 2 * M" using E X8 Ms X0 by linarith
  have "\<epsilon> * \<bar>t + e\<bar> \<le> \<epsilon> * (\<bar>t\<bar> + 2 * M)" using F \<epsilon>(1) by (rule mult_left_mono)
  then have G: "\<bar>c - (t + e)\<bar> \<le> \<epsilon> * \<bar>t\<bar> + 2 * X"
    using c by (simp add: X_def algebra_simps)
  have "\<bar>c - (t + D * s)\<bar> \<le> \<bar>c - (t + e)\<bar> + \<bar>e - D * s\<bar>" by linarith
  then have "\<bar>c - (t + D * s)\<bar> \<le> \<epsilon> * \<bar>t\<bar> + 7 * X" using G E by linarith
  moreover have "8 * \<epsilon> * (\<bar>t\<bar> + \<bar>D * s\<bar>) = 8 * (\<epsilon> * \<bar>t\<bar>) + 8 * X"
    by (simp add: X_def Ms algebra_simps)
  ultimately show ?thesis using T0 X0 by linarith
qed

lemma scaledAdvance_close:
  "\<bar>scaledAdvance t elapsed scale - (real_of_int t + real_of_int elapsed * scale)\<bar>
     \<le> (\<bar>real_of_int t\<bar> + \<bar>real_of_int elapsed * scale\<bar>) / 2 ^ 50"
proof -
  have "\<bar>scaledAdvance t elapsed scale - (real_of_int t + real_of_int elapsed * scale)\<bar>
          \<le> 8 * (1 / 2 ^ 53) * (\<bar>real_of_int t\<bar> + \<bar>real_of_int elapsed * scale\<bar>)"
    unfolding scaledAdvance_def
    by (rule rounding_chain[OF roundToDouble_error roundToDouble_error roundToDouble_error
          roundToDouble_error]) simp_all
  then show ?thesis by simp
qed

lemma toInteger_close: "\<bar>real_of_int (toInteger x) - x\<bar> < 1"
  unfolding toInteger_def by (auto; linarith)

lemma toInteger_scaledAdvance_close:
  "\<bar>real_of_int (toInteger (scaledAdvance t elapsed scale))
      - (real_of_int t + real_of_int elapsed * scale)\<bar>
     < 1 + (\<bar>real_of_int t\<bar> + \<bar>real_of_int elapsed * scale\<bar>) / 2 ^ 50"
  using scaledAdvance_close[of t elapsed scale] toInteger_close[of "scaledAdvance t elapsed scale"]
  by linarith

section \<open>Properties of the virtual clock\<close>

lemmas clock_defs = getTimeControlData_def updateIfRunning_def
  timeInfo_def calculateRealTimeFactor_def

lemmas demo_defs = demoStore_def demoClock_def

lemma factor_matches_status_timeInfo: "factor_matches_status (timeInfo sid d)"
  by (simp add: factor_matches_status_def timeInfo_def calculateRealTimeFactor_def)

lemma validateTimeScale_cases:
  "validateTimeScale NaN = Inl TimeScaleNotPositive"
  "validateTimeScale NegInfinity = Inl TimeScaleNotPositive"
  "validateTimeScale PosInfinity = Inr 1000"
  "validateTimeScale (Num r) =
     (if r \<le> 0 then Inl TimeScaleNotPositive else Inr (max (1 / 10) (min 1000 r)))"
  by (simp_all add: validateTimeScale_def isNaN_def le_zero_def minTimeScale_def
      maxTimeScale_def)

text \<open>
  \<open>updateCurrentTime\<close> in one step: the double of \<open>scaledAdvance\<close> is clipped, and the
  update fails when it lies outside the range of dates.
\<close>

lemma updateCurrentTime_scaledAdvance:
  "updateCurrentTime now d =
     (let c = scaledAdvance (currentTime d) (now - lastUpdateRealTime d) (timeScale d)
      in if \<bar>c\<bar> > maxTimeValue then Inl RangeError_InvalidTimeValue
         else Inr (d\<lparr>currentTime := toInteger c, lastUpdateRealTime := now\<rparr>))"
  by (simp add: updateCurrentTime_def scaledAdvance_def TimeClip_def toISOString_def Let_def)

text \<open>The advances of the sample clocks.\<close>

lemma scaledAdvance_samples:
  "scaledAdvance 0 0 2 = 0"
  "scaledAdvance 0 10 2 = 20"
  "scaledAdvance 8640000000000000 0 1 = 8640000000000000"
  "scaledAdvance 8640000000000000 1 1 = 8640000000000001"
  by (simp_all add: scaledAdvance_def rounding_simps)

text \<open>
  At scale 0.57 the product with 100 ms is the double just below 57, and the clock
  advances by 56 ms; at scale 0.3 the product with 10 ms rounds to 3, and the clock
  advances by 3 ms.
\<close>

lemma scaledAdvance_57_percent: "scaledAdvance 0 100 (57 / 100) = 8022036836253695 / 2 ^ 47"
proof -
  have 1: "roundToDouble (real_of_int 100) = 100"
    using roundToDouble_of_int[of 100] by simp
  have 2: "roundToDouble (real_of_int 0 + 8022036836253695 / 2 ^ 47)
             = 8022036836253695 / 2 ^ 47"
    using roundToDouble_just_below_57 by simp
  show ?thesis
    by (simp only: scaledAdvance_def 1 roundToDouble_57_percent
        roundToDouble_57_percent_times_100 2)
qed

lemma scaledAdvance_3_tenths:
  "scaledAdvance 0 10 (3 / 10) = 3"
  "scaledAdvance 3 10 (3 / 10) = 6"
proof -
  have 1: "roundToDouble (real_of_int 10) = 10"
    using roundToDouble_of_int[of 10] by simp
  have 2: "roundToDouble (real_of_int 0 + 3) = 3"
    using roundToDouble_of_int[of 3] by simp
  have 3: "roundToDouble (real_of_int 3 + 3) = 6"
    using roundToDouble_of_int[of 6] by simp
  show "scaledAdvance 0 10 (3 / 10) = 3"
    by (simp only: scaledAdvance_def 1 roundToDouble_3_tenths roundToDouble_3_tenths_times_10 2)
  show "scaledAdvance 3 10 (3 / 10) = 6"
    by (simp only: scaledAdvance_def 1 roundToDouble_3_tenths roundToDouble_3_tenths_times_10 3)
qed

text \<open>
  The sample store is the one \<open>initialize\<close> builds on the empty store, for any start
  time inside the range of dates and any scale between 0.1 and 1000.
\<close>

lemma initialize_demoStore:
  assumes "1 / 10 \<le> s" and "s \<le> 1000"
  shows "snd (initialize Map.empty
                \<lparr>init_simulationId = ''sim'', init_startTime = Some (Time_Value t),
                 init_timeScale = Some (Num s)\<rparr> now1 0) = demoStore s t"
  using assms
  by (simp add: initialize_def timeScale_or_default_def validateTimeScale_cases toISOString_def
      demo_defs)

text \<open>
  Claim C10. Every \<open>TimeInfoDto\<close> that \<open>getCurrentTime\<close>, \<open>setTimeScale\<close>, \<open>pause\<close>,
  \<open>resume\<close>, \<open>reset\<close> or \<open>setCurrentTime\<close> returns has \<open>realTimeFactor\<close> equal to the
  returned \<open>timeScale\<close> when the returned status is running, and equal to 0 when it is
  paused.
\<close>

theorem realTimeFactor_matches_status:
  "returned_info_ok (getCurrentTime store sid now) \<and>
   returned_info_ok (setTimeScale store sid ts now1 now2) \<and>
   returned_info_ok (pause store sid now) \<and>
   returned_info_ok (resume store sid now) \<and>
   returned_info_ok (reset store sid) \<and>
   returned_info_ok (setCurrentTime store sid newTime now)"
  by (auto simp: returned_info_ok_def getCurrentTime_def setTimeScale_def pause_def resume_def
      reset_def setCurrentTime_def Let_def factor_matches_status_timeInfo
      split: sum.splits Date.splits)

text \<open>
  The property at work: a read of a running clock returns the scale 2 as the factor,
  and a reset, which pauses the clock, returns the factor 0.
\<close>

theorem realTimeFactor_matches_status_witness:
  "returned_info_ok (getCurrentTime (demoStore 2 0) ''sim'' 10) \<and>
   fst (getCurrentTime (demoStore 2 0) ''sim'' 10) =
     Inr \<lparr>info_simulationId = ''sim'', info_currentTime = 20, info_timeScale = 2,
          info_status = Running, realTimeFactor = 2\<rparr> \<and>
   returned_info_ok (reset (demoStore 2 0) ''sim'') \<and>
   fst (reset (demoStore 2 0) ''sim'') =
     Inr \<lparr>info_simulationId = ''sim'', info_currentTime = 0, info_timeScale = 2,
          info_status = Paused, realTimeFactor = 0\<rparr>"
proof -
  have 1: "fst (getCurrentTime (demoStore 2 0) ''sim'' 10) =
     Inr \<lparr>info_simulationId = ''sim'', info_currentTime = 20, info_timeScale = 2,
          info_status = Running, realTimeFactor = 2\<rparr>"
    by (simp add: getCurrentTime_def demo_defs clock_defs updateCurrentTime_scaledAdvance
        scaledAdvance_samples maxTimeValue_def toInteger_def)
  have 2: "fst (reset (demoStore 2 0) ''sim'') =
     Inr \<lparr>info_simulationId = ''sim'', info_currentTime = 0, info_timeScale = 2,
          info_status = Paused, realTimeFactor = 0\<rparr>"
    by (simp add: reset_def demo_defs clock_defs)
  from realTimeFactor_matches_status[of "demoStore 2 0" "''sim''" 10 NaN 0 0 Invalid_Date] 1 2
  show ?thesis by simp
qed

text \<open>
  Claim C4 says that \<open>setTimeScale\<close> fails exactly when the new scale is non-finite or
  at most 0. The guard of \<open>validateTimeScale\<close> is \<open>isNaN(timeScale) || timeScale <= 0\<close>,
  which lets \<open>+Infinity\<close> through: the call succeeds and stores the scale 1000.
\<close>

theorem setTimeScale_accepts_PosInfinity:
  "setTimeScale (demoStore 2 0) ''sim'' PosInfinity 0 0 =
     (Inr \<lparr>info_simulationId = ''sim'', info_currentTime = 0, info_timeScale = 1000,
           info_status = Running, realTimeFactor = 1000\<rparr>,
      demoStore 1000 0)"
  by (simp add: setTimeScale_def validateTimeScale_cases demo_defs clock_defs
      updateCurrentTime_scaledAdvance scaledAdvance_samples maxTimeValue_def toInteger_def)

text \<open>
  Claim C4, amended. On a known simulation whose clock update succeeds, \<open>setTimeScale\<close>
  fails with the time-scale error exactly when the new scale is \<open>NaN\<close>, \<open>-Infinity\<close> or
  a number at most 0. On a positive number it succeeds and stores that number clamped
  into [0.1, 1000]; on \<open>+Infinity\<close> it succeeds and stores 1000.
\<close>

theorem setTimeScale_validation:
  assumes "store sid = Some d" and "updateIfRunning now1 d = Inr d1"
  shows "(fst (setTimeScale store sid ts now1 now2) = Inl TimeScaleNotPositive
            \<longleftrightarrow> ts = NaN \<or> ts = NegInfinity \<or> (\<exists>r. ts = Num r \<and> r \<le> 0)) \<and>
         (\<forall>r. ts = Num r \<and> 0 < r \<longrightarrow>
            setTimeScale store sid ts now1 now2 =
              (let d2 = d1\<lparr>timeScale := max (1 / 10) (min 1000 r), lastUpdateRealTime := now2\<rparr>
               in (Inr (timeInfo sid d2), store(sid \<mapsto> d2)))) \<and>
         (ts = PosInfinity \<longrightarrow>
            setTimeScale store sid ts now1 now2 =
              (let d2 = d1\<lparr>timeScale := 1000, lastUpdateRealTime := now2\<rparr>
               in (Inr (timeInfo sid d2), store(sid \<mapsto> d2))))"
  using assms
  by (cases ts) (auto simp: setTimeScale_def getTimeControlData_def validateTimeScale_cases Let_def)

text \<open>
  On the sample clock, read at wall time 10: the scale 5000 is stored as 1000 and the
  scale 0 is refused.
\<close>

theorem setTimeScale_validation_witness:
  "demoStore 2 0 ''sim'' = Some (demoClock 2 0) \<and>
   updateIfRunning 10 (demoClock 2 0) =
     Inr ((demoClock 2 0)\<lparr>currentTime := 20, lastUpdateRealTime := 10\<rparr>) \<and>
   setTimeScale (demoStore 2 0) ''sim'' (Num 5000) 10 11 =
     (Inr \<lparr>info_simulationId = ''sim'', info_currentTime = 20, info_timeScale = 1000,
           info_status = Running, realTimeFactor = 1000\<rparr>,
      [''sim'' \<mapsto> (demoClock 1000 0)\<lparr>currentTime := 20, lastUpdateRealTime := 11\<rparr>]) \<and>
   fst (setTimeScale (demoStore 2 0) ''sim'' (Num 0) 10 11) = Inl TimeScaleNotPositive"
proof -
  have h1: "demoStore 2 0 ''sim'' = Some (demoClock 2 0)" by (simp add: demo_defs)
  have h2: "updateIfRunning 10 (demoClock 2 0) =
              Inr ((demoClock 2 0)\<lparr>currentTime := 20, lastUpdateRealTime := 10\<rparr>)"
    by (simp add: demo_defs clock_defs updateCurrentTime_scaledAdvance scaledAdvance_samples
        maxTimeValue_def toInteger_def)
  from setTimeScale_validation[where store = "demoStore 2 0" and sid = "''sim''"
         and ts = "Num 5000" and ?now2.0 = 11, OF h1 h2]
       setTimeScale_validation[where store = "demoStore 2 0" and sid = "''sim''"
         and ts = "Num 0" and ?now2.0 = 11, OF h1 h2] h1 h2
  show ?thesis
    by (simp add: demo_defs timeInfo_def calculateRealTimeFactor_def)
qed

text \<open>
  Claim C5 says that every read of a running clock returns the previous time plus the
  elapsed wall time multiplied by the scale. A clock that stands at the last
  representable date, 8.64e15 ms, and runs at scale 1 cannot advance by one
  millisecond: \<open>setTime\<close> yields the invalid date, \<open>toISOString\<close> throws, and the read
  fails and leaves the clock as it was.
\<close>

theorem getCurrentTime_beyond_last_date:
  "getCurrentTime (demoStore 1 8640000000000000) ''sim'' 1 =
     (Inl RangeError_InvalidTimeValue, demoStore 1 8640000000000000)"
  by (simp add: getCurrentTime_def demo_defs clock_defs updateCurrentTime_scaledAdvance
      scaledAdvance_samples maxTimeValue_def)

text \<open>
  Claim C5, amended. For a running clock with scale \<open>s\<close> in [0.1, 1000] and a wall-clock
  advance \<open>\<Delta> \<ge> 0\<close> since the last update, a read whose advanced time, as the doubles
  compute it, lies inside the range of dates returns the previous time plus \<open>\<Delta> * s\<close>
  within floating and millisecond tolerance, and records the new wall time as the
  point of the last update. The tolerance is one millisecond for the truncation plus
  the relative error \<open>2^-50\<close> of the roundings. A read whose advanced time lies outside
  the range of dates raises the range error and changes nothing.
\<close>

theorem getCurrentTime_advances_by_scaled_elapsed_time:
  assumes "store sid = Some d" and "status d = Running"
    and "1 / 10 \<le> timeScale d" and "timeScale d \<le> 1000"
    and "lastUpdateRealTime d \<le> now"
  shows "getCurrentTime store sid now =
           (let c = scaledAdvance (currentTime d) (now - lastUpdateRealTime d) (timeScale d);
                d1 = d\<lparr>currentTime := toInteger c, lastUpdateRealTime := now\<rparr>
            in if \<bar>c\<bar> > maxTimeValue then (Inl RangeError_InvalidTimeValue, store)
               else (Inr (timeInfo sid d1), store(sid \<mapsto> d1))) \<and>
         \<bar>real_of_int
            (toInteger (scaledAdvance (currentTime d) (now - lastUpdateRealTime d) (timeScale d)))
            - (real_of_int (currentTime d)
                 + real_of_int (now - lastUpdateRealTime d) * timeScale d)\<bar>
           < 1 + (\<bar>real_of_int (currentTime d)\<bar>
                    + \<bar>real_of_int (now - lastUpdateRealTime d) * timeScale d\<bar>) / 2 ^ 50"
proof (rule conjI)
  show "getCurrentTime store sid now =
           (let c = scaledAdvance (currentTime d) (now - lastUpdateRealTime d) (timeScale d);
                d1 = d\<lparr>currentTime := toInteger c, lastUpdateRealTime := now\<rparr>
            in if \<bar>c\<bar> > maxTimeValue then (Inl RangeError_InvalidTimeValue, store)
               else (Inr (timeInfo sid d1), store(sid \<mapsto> d1)))"
    using assms(1,2)
    by (simp add: getCurrentTime_def clock_defs updateCurrentTime_scaledAdvance Let_def)
qed (rule toInteger_scaledAdvance_close)

text \<open>
  The sample clock at scale 0.57, read 100 ms after its start, stands at 56 ms: the
  product is the double just below 57, and \<open>setTime\<close> truncates it.
\<close>

theorem getCurrentTime_advances_by_scaled_elapsed_time_witness:
  "demoStore (57 / 100) 0 ''sim'' = Some (demoClock (57 / 100) 0) \<and>
   status (demoClock (57 / 100) 0) = Running \<and>
   1 / 10 \<le> timeScale (demoClock (57 / 100) 0) \<and> timeScale (demoClock (57 / 100) 0) \<le> 1000 \<and>
   lastUpdateRealTime (demoClock (57 / 100) 0) \<le> 100 \<and>
   getCurrentTime (demoStore (57 / 100) 0) ''sim'' 100 =
     (Inr \<lparr>info_simulationId = ''sim'', info_currentTime = 56, info_timeScale = 57 / 100,
           info_status = Running, realTimeFactor = 57 / 100\<rparr>,
      [''sim'' \<mapsto> (demoClock (57 / 100) 0)\<lparr>currentTime := 56, lastUpdateRealTime := 100\<rparr>]) \<and>
   \<bar>real_of_int 56 - (real_of_int 0 + real_of_int 100 * (57 / 100))\<bar>
     < 1 + (\<bar>real_of_int 0\<bar> + \<bar>real_of_int 100 * (57 / 100)\<bar>) / 2 ^ 50"
proof -
  have h1: "demoStore (57 / 100) 0 ''sim'' = Some (demoClock (57 / 100) 0)"
    by (simp add: demo_defs)
  have h2: "status (demoClock (57 / 100) 0) = Running" by (simp add: demo_defs)
  have h3: "1 / 10 \<le> timeScale (demoClock (57 / 100) 0)"
    and h4: "timeScale (demoClock (57 / 100) 0) \<le> 1000"
    by (simp_all add: demo_defs)
  have h5: "lastUpdateRealTime (demoClock (57 / 100) 0) \<le> 100" by (simp add: demo_defs)
  have v: "toInteger (8022036836253695 / 140737488355328) = 56" by (simp add: toInteger_def)
  from getCurrentTime_advances_by_scaled_elapsed_time[where store = "demoStore (57 / 100) 0"
         and sid = "''sim''", OF h1 h2 h3 h4 h5] h1 h2 h3 h4 h5
  show ?thesis
    by (simp add: demo_defs timeInfo_def calculateRealTimeFactor_def Let_def
        maxTimeValue_def scaledAdvance_57_percent v)
qed

text \<open>
  Claim C6 says that after \<open>pause\<close>, \<open>resume\<close> and a wall-clock advance of \<open>\<Delta>\<close> the time
  equals the frozen value plus \<open>\<Delta> * timeScale\<close>. A clock that is paused at the last
  representable date, 8.64e15 ms, and resumed at scale 1 has no such time one
  millisecond later: the pause succeeds, and the read after the resume raises the
  range error.
\<close>

theorem resume_then_advance_beyond_last_date:
  "fst (pause (demoStore 1 8640000000000000) ''sim'' 0) =
     Inr \<lparr>info_simulationId = ''sim'', info_currentTime = 8640000000000000, info_timeScale = 1,
          info_status = Paused, realTimeFactor = 0\<rparr> \<and>
   fst (getCurrentTime
          (snd (resume (snd (pause (demoStore 1 8640000000000000) ''sim'' 0)) ''sim'' 100))
          ''sim'' 101) =
     Inl RangeError_InvalidTimeValue"
  by (simp add: pause_def resume_def getCurrentTime_def demo_defs clock_defs
      updateCurrentTime_scaledAdvance scaledAdvance_samples maxTimeValue_def toInteger_def Let_def)

lemma pause_result:
  assumes "pause store sid w0 = (Inr i0, st1)"
  obtains d where "st1 sid = Some d" and "status d = Paused" and "i0 = timeInfo sid d"
  using assms
  by (auto simp: pause_def getTimeControlData_def Let_def split: option.splits sum.splits)

text \<open>
  Claim C6, amended. After a \<open>pause\<close> that succeeds, every \<open>getCurrentTime\<close>, at whatever
  wall time, returns the frozen time and leaves the store unchanged. A \<open>resume\<close> at any
  wall time \<open>w1\<close> returns the frozen time, and a read \<open>\<Delta>\<close> ms after it, when its advanced
  time lies inside the range of dates, returns the frozen time plus \<open>\<Delta> * timeScale\<close>
  within the tolerance of a read of a running clock, whatever the time spent paused:
  the result depends on the frozen time, on \<open>\<Delta>\<close> and on the scale only. When the
  advanced time lies outside the range of dates the read raises the range error.
\<close>

theorem pause_freezes_and_resume_does_not_catch_up:
  assumes "pause store sid w0 = (Inr i0, st1)"
  shows "getCurrentTime st1 sid w = (Inr i0, st1) \<and>
         fst (resume st1 sid w1) =
           Inr (i0\<lparr>info_status := Running, realTimeFactor := info_timeScale i0\<rparr>) \<and>
         fst (getCurrentTime (snd (resume st1 sid w1)) sid (w1 + \<Delta>)) =
           (let c = scaledAdvance (info_currentTime i0) \<Delta> (info_timeScale i0)
            in if \<bar>c\<bar> > maxTimeValue then Inl RangeError_InvalidTimeValue
               else Inr (i0\<lparr>info_currentTime := toInteger c, info_status := Running,
                             realTimeFactor := info_timeScale i0\<rparr>)) \<and>
         \<bar>real_of_int (toInteger (scaledAdvance (info_currentTime i0) \<Delta> (info_timeScale i0)))
            - (real_of_int (info_currentTime i0) + real_of_int \<Delta> * info_timeScale i0)\<bar>
           < 1 + (\<bar>real_of_int (info_currentTime i0)\<bar>
                    + \<bar>real_of_int \<Delta> * info_timeScale i0\<bar>) / 2 ^ 50"
proof -
  from assms obtain d where d: "st1 sid = Some d" "status d = Paused" "i0 = timeInfo sid d"
    by (rule pause_result)
  have upd: "st1(sid \<mapsto> d) = st1" using d(1) by (simp add: map_upd_triv)
  have a: "getCurrentTime st1 sid w = (Inr i0, st1)"
    using d upd by (simp add: getCurrentTime_def getTimeControlData_def updateIfRunning_def)
  have b: "fst (resume st1 sid w1) =
             Inr (i0\<lparr>info_status := Running, realTimeFactor := info_timeScale i0\<rparr>)"
    using d
    by (simp add: resume_def getTimeControlData_def Let_def timeInfo_def
        calculateRealTimeFactor_def)
  have c: "fst (getCurrentTime (snd (resume st1 sid w1)) sid (w1 + \<Delta>)) =
           (let c = scaledAdvance (info_currentTime i0) \<Delta> (info_timeScale i0)
            in if \<bar>c\<bar> > maxTimeValue then Inl RangeError_InvalidTimeValue
               else Inr (i0\<lparr>info_currentTime := toInteger c, info_status := Running,
                             realTimeFactor := info_timeScale i0\<rparr>))"
    using d
    by (simp add: resume_def getCurrentTime_def Let_def clock_defs
        updateCurrentTime_scaledAdvance)
  from a b c toInteger_scaledAdvance_close show ?thesis by blast
qed

text \<open>
  The sample clock at scale 0.3 is paused at wall time 10, where it stands at 3 ms. A
  read at wall time 900 still returns 3 ms; after a resume at wall time 1000, a read
  10 ms later returns 6 ms.
\<close>

theorem pause_freezes_and_resume_does_not_catch_up_witness:
  "pause (demoStore (3 / 10) 0) ''sim'' 10 =
     (Inr \<lparr>info_simulationId = ''sim'', info_currentTime = 3, info_timeScale = 3 / 10,
           info_status = Paused, realTimeFactor = 0\<rparr>,
      [''sim'' \<mapsto> (demoClock (3 / 10) 0)\<lparr>currentTime := 3, status := Paused,
                                          lastUpdateRealTime := 10\<rparr>]) \<and>
   fst (getCurrentTime
          [''sim'' \<mapsto> (demoClock (3 / 10) 0)\<lparr>currentTime := 3, status := Paused,
                                              lastUpdateRealTime := 10\<rparr>]
          ''sim'' 900) =
     Inr \<lparr>info_simulationId = ''sim'', info_currentTime = 3, info_timeScale = 3 / 10,
          info_status = Paused, realTimeFactor = 0\<rparr> \<and>
   fst (getCurrentTime
          (snd (resume [''sim'' \<mapsto> (demoClock (3 / 10) 0)\<lparr>currentTime := 3, status := Paused,
                                                          lastUpdateRealTime := 10\<rparr>]
                  ''sim'' 1000))
          ''sim'' (1000 + 10)) =
     Inr \<lparr>info_simulationId = ''sim'', info_currentTime = 6, info_timeScale = 3 / 10,
          info_status = Running, realTimeFactor = 3 / 10\<rparr>"
proof -
  have h: "pause (demoStore (3 / 10) 0) ''sim'' 10 =
     (Inr \<lparr>info_simulationId = ''sim'', info_currentTime = 3, info_timeScale = 3 / 10,
           info_status = Paused, realTimeFactor = 0\<rparr>,
      [''sim'' \<mapsto> (demoClock (3 / 10) 0)\<lparr>currentTime := 3, status := Paused,
                                          lastUpdateRealTime := 10\<rparr>])"
    by (simp add: pause_def demo_defs clock_defs updateCurrentTime_scaledAdvance
        scaledAdvance_3_tenths maxTimeValue_def toInteger_def Let_def)
  from pause_freezes_and_resume_does_not_catch_up[OF h, of 900 1000 10] h show ?thesis
    by (simp add: maxTimeValue_def toInteger_def Let_def scaledAdvance_3_tenths)
qed

section \<open>Properties of the simulation service\<close>

text \<open>
  Claim C1. After \<open>terminateSimulation\<close> has succeeded for an id, \<open>getSimulationState\<close>
  for that id is to fail with the not-found error instead of returning a market
  snapshot. The service documents the operation as terminating and cleaning up a
  simulation, and its controller documents the answer 404, simulation not found, for
  the state query, but \<open>terminateSimulation\<close> only returns its success value and
  \<open>getSimulationState\<close> looks nothing up. Evaluated at the id \<open>sim\<close>: the termination
  succeeds and the state query that follows returns a snapshot.
\<close>

theorem getSimulationState_after_terminate_returns_snapshot:
  "fst (terminateSimulation (demoStore 1 0) ''sim'') = Inr True \<and>
   fst (getSimulationState (snd (terminateSimulation (demoStore 1 0) ''sim'')) ''sim'' 0 noJitter) =
     Inr \<lparr>state_simulationId = ''sim'', state_currentTime = 0, state_timeScale = 1,
           state_status = Sim_running,
           marketState_tokens = [''ETH'' \<mapsto> 2500, ''BTC'' \<mapsto> 40000, ''USDC'' \<mapsto> 1],
           marketState_gasPrice = 50,
           marketState_blockNumber = 12345678,
           agentState_balance = [''ETH'' \<mapsto> ''1.5'', ''USDC'' \<mapsto> ''5000''],
           agentState_pendingActions = 0, agentState_completedActions = 5\<rparr>"
  by (simp add: terminateSimulation_def getSimulationState_def noJitter_def)

text \<open>
  The same for every id, store, wall-clock time and sequence of draws: the termination
  reports success and leaves the store of clocks as it was, and the state query that
  follows returns a snapshot with the id, the wall-clock time and prices for \<open>ETH\<close>,
  \<open>BTC\<close> and \<open>USDC\<close>.
\<close>

lemma terminateSimulation_releases_nothing:
  "terminateSimulation store sid = (Inr True, store) \<and>
   (\<exists>dto. getSimulationState (snd (terminateSimulation store sid)) sid now random
            = (Inr dto, store) \<and>
          state_simulationId dto = sid \<and> state_currentTime dto = now \<and>
          dom (marketState_tokens dto) = {''ETH'', ''BTC'', ''USDC''})"
  by (auto simp: terminateSimulation_def getSimulationState_def)

section \<open>Properties of the scenario generator\<close>

subsection \<open>Sample values\<close>

lemma simpleHash_nonneg: "0 \<le> simpleHash str"
  by (simp add: simpleHash_def)

lemma simpleHash_ETH: "simpleHash ''ETH'' = 68985"
  by (simp add: simpleHash_def)

lemma toLowerCase_ETH: "toLowerCase ''ETH'' = ''eth''"
  by code_simp

lemma getBasePriceForToken_ETH: "getBasePriceForToken ''ETH'' = 2485"
  by (simp add: getBasePriceForToken_def simpleHash_ETH toLowerCase_ETH)

lemma sin_39_halves_pi: "sin (39 * pi / 2) = - 1"
proof -
  have "sin (real (Suc (2 * 19)) * pi / 2) = (- 1) ^ 19" by (rule sin_cos_npi)
  then show ?thesis by simp
qed

subsection \<open>The token loop\<close>

lemma generateTokens_lookup:
  "generateTokens st ps p random k toks acc t = Some d \<Longrightarrow>
     acc t = Some d \<or> (\<exists>k'. d = tokenData st ps p random k' t)"
proof (induction toks arbitrary: k acc)
  case Nil
  then show ?case by simp
next
  case (Cons a toks)
  from Cons.prems
  have "assign_property acc a (tokenData st ps p random k a) t = Some d
        \<or> (\<exists>k'. d = tokenData st ps p random k' t)"
    using Cons.IH by simp
  then show ?case
    by (auto simp: assign_property_def split: if_splits)
qed

lemma dom_generateTokens:
  "dom (generateTokens st ps p random k toks acc) = dom acc \<union> (set toks - {''__proto__''})"
  by (induction toks arbitrary: k acc) (auto simp: assign_property_def)

lemma generateMarketData_single:
  "token \<noteq> ''__proto__'' \<Longrightarrow>
   tokens (generateMarketData st ps p [token] now random) token
     = Some (tokenData st ps p random 0 token)"
  by (simp add: generateMarketData_def assign_property_def)

lemma price_tokenData:
  "price (tokenData st ps p random k token) =
     mult_number (Num (getBasePriceForToken token)) (getPriceModifier st ps p)"
  by (simp add: tokenData_def Let_def)

subsection \<open>Positive prices\<close>

lemma getBasePriceForToken_pos: "0 < getBasePriceForToken token"
proof -
  have m: "\<And>n::int. 0 < n \<Longrightarrow> 0 \<le> real_of_int (simpleHash token mod n)"
    by simp
  show ?thesis
    unfolding getBasePriceForToken_def Let_def
    using m[of 20000] m[of 2000] m[of 5] m[of 1000]
    by (auto intro: add_pos_nonneg)
qed

lemma or_default_bounds:
  assumes "in_range x lo hi" and "lo \<le> d" and "d \<le> hi"
  shows "lo \<le> or_default x d \<and> or_default x d \<le> hi"
  using assms by (cases x) (auto simp: in_range_def or_default_def)

lemma crashPoint_nonneg: "0 \<le> p \<Longrightarrow> 0 \<le> crashPoint p"
  by (simp add: crashPoint_def)

lemma flashCrashPhase_bounds: "0 \<le> flashCrashPhase p \<and> flashCrashPhase p \<le> 1"
  by (simp add: flashCrashPhase_def)

lemma flashCrashRecovery_nonneg: "0 \<le> flashCrashRecovery p"
  by (simp add: flashCrashRecovery_def)

lemma bull_pos:
  assumes "0 \<le> i" and "0 \<le> p"
  shows "0 < 1 + i * (p::real)"
proof -
  have "0 \<le> i * p" using assms by simp
  then show ?thesis by linarith
qed

lemma bear_pos:
  assumes "0 \<le> i" and "i \<le> 1" and "0 \<le> p" and "p \<le> (1::real)"
  shows "0 < 1 - i * (7 / 10) * p"
proof -
  have "i * p \<le> 1 * 1" using assms by (intro mult_mono) auto
  then show ?thesis by simp
qed

lemma crash_pos:
  assumes i: "0 \<le> i" "i \<le> 1" and c: "0 \<le> c" and s: "0 \<le> s" and r: "0 \<le> (r::real)"
  shows "0 < 1 - i * (1 - exp (- 5 * c)) + i * (1 - exp (- 5 * c)) * (s * r)"
proof -
  define u where "u = 1 - exp (- 5 * c)"
  have u0: "0 \<le> u" using c by (simp add: u_def)
  have u1: "u < 1" by (simp add: u_def)
  have "i * u \<le> 1 * u" using i(2) u0 by (rule mult_right_mono)
  then have e1: "i * u < 1" using u1 by simp
  have e0: "0 \<le> i * u" using i(1) u0 by simp
  have "0 \<le> s * r" using s r by simp
  then have "0 \<le> (i * u) * (s * r)" using e0 by (rule mult_nonneg_nonneg[rotated])
  then have "0 < 1 - i * u + i * u * (s * r)" using e1 by linarith
  then show ?thesis by (simp add: u_def)
qed

lemma sideways_pos:
  assumes "0 \<le> w" and "w < (1::real)"
  shows "0 < 1 + w * sin x"
proof -
  have "- 1 \<le> sin x" by simp
  then have "w * (- 1) \<le> w * sin x" using assms(1) by (rule mult_left_mono)
  then show ?thesis using assms(2) by linarith
qed

lemma volatility_pos:
  assumes i: "0 \<le> i" and b: "i / 2 - min 0 b < 1" and p: "0 \<le> p" "p \<le> (1::real)"
  shows "0 < 1 + i * (5 / 10) * sin x + b * p"
proof -
  have "- 1 \<le> sin x" by simp
  then have "i * (- 1) \<le> i * sin x" using i by (rule mult_left_mono)
  then have 1: "- (i / 2) \<le> i * (5 / 10) * sin x" by simp
  have "min 0 b * 1 \<le> min 0 b * p" using p by (intro mult_left_mono_neg) auto
  moreover have "min 0 b * p \<le> b * p" using p by (intro mult_right_mono) auto
  ultimately have 2: "min 0 b \<le> b * p" by simp
  from 1 2 b show ?thesis by linarith
qed

lemma liquidity_pos:
  assumes "0 \<le> i" and "i \<le> 1" and "0 \<le> p" and "p \<le> (1::real)"
  shows "0 < 1 - i * (3 / 10) * p + i * (2 / 10) * sin x"
proof -
  have "i * p \<le> 1 * 1" using assms by (intro mult_mono) auto
  then have 1: "i * (3 / 10) * p \<le> 3 / 10" by simp
  have "- 1 \<le> sin x" by simp
  then have "i * (- 1) \<le> i * sin x" using assms(1) by (rule mult_left_mono)
  then have "- 1 \<le> i * sin x" using assms(2) by linarith
  then have 2: "- (2 / 10) \<le> i * (2 / 10) * sin x" by simp
  from 1 2 show ?thesis by linarith
qed

lemma flash_pos:
  assumes "0 \<le> i" and "i \<le> 1" and "0 \<le> ph" and "ph \<le> 1" and "0 \<le> s" and "0 \<le> (rc::real)"
  shows "0 < 1 - i * (7 / 10) * ph + i * (7 / 10) * s * rc"
proof -
  have "i * ph \<le> 1 * 1" using assms by (intro mult_mono) auto
  then have 1: "i * (7 / 10) * ph \<le> 7 / 10" by simp
  have 2: "0 \<le> i * (7 / 10) * s * rc" using assms by simp
  from 1 2 show ?thesis by linarith
qed

lemma getPriceModifier_pos:
  assumes r: "parametersInRange ps" and p: "0 \<le> p" "p \<le> 1" and s: "swingBelowOne st ps"
  shows "gt_zero (getPriceModifier st ps p)"
proof -
  define i where "i = or_default (intensity ps) (5 / 10)"
  have i: "0 \<le> i" "i \<le> 1"
    using r or_default_bounds[of "intensity ps" 0 1 "5 / 10"]
    by (simp_all add: parametersInRange_def i_def)
  have rs: "0 \<le> or_default (recovery_speed ps) (3 / 10)"
    using r or_default_bounds[of "recovery_speed ps" 0 1 "3 / 10"]
    by (simp add: parametersInRange_def)
  have rw: "0 \<le> or_default (range_width ps) (1 / 10)"
    using r or_default_bounds[of "range_width ps" 0 1 "1 / 10"]
    by (simp add: parametersInRange_def)
  consider (bull) "st = ''bull_market''" | (bear) "st = ''bear_market''"
    | (crash) "st = ''market_crash''" | (side) "st = ''sideways_market''"
    | (vol) "st = ''high_volatility''" | (liq) "st = ''liquidity_crisis''"
    | (flash) "st = ''flash_crash''"
    | (other) "st \<notin> set validScenarios"
    by (auto simp: validScenarios_def)
  then show ?thesis
  proof cases
    case bull
    then show ?thesis
      using bull_pos[OF i(1) p(1)] by (simp add: getPriceModifier_def gt_zero_def i_def Let_def)
  next
    case bear
    then show ?thesis
      using bear_pos[OF i p] by (simp add: getPriceModifier_def gt_zero_def i_def Let_def)
  next
    case crash
    have "0 \<le> max 0 ((p - 2 / 10) / (8 / 10))" by simp
    then show ?thesis
      using crash crash_pos[OF i crashPoint_nonneg[OF p(1)] rs,
          of "max 0 ((p - 2 / 10) / (8 / 10))"]
      by (simp add: getPriceModifier_def gt_zero_def i_def Let_def)
  next
    case side
    then have "or_default (range_width ps) (1 / 10) < 1"
      using s by (simp add: swingBelowOne_def)
    then show ?thesis
      using side sideways_pos[OF rw, of "p * 10 * pi"]
      by (simp add: getPriceModifier_def gt_zero_def Let_def)
  next
    case vol
    then have "i / 2 - min 0 (or_default (direction_bias ps) 0) < 1"
      using s by (simp add: swingBelowOne_def i_def)
    then show ?thesis
      using vol volatility_pos[OF i(1) _ p, of "or_default (direction_bias ps) 0" "p * 20 * pi"]
      by (simp add: getPriceModifier_def gt_zero_def i_def Let_def)
  next
    case liq
    then show ?thesis
      using liquidity_pos[OF i p, of "p * 15 * pi"]
      by (simp add: getPriceModifier_def gt_zero_def i_def Let_def)
  next
    case flash
    then obtain v where v: "recovery_speed ps = Some v"
      using s by (auto simp: swingBelowOne_def)
    then have "0 \<le> v" using r by (simp add: parametersInRange_def in_range_def)
    then show ?thesis
      using flash v flashCrashPhase_bounds[of p] flashCrashRecovery_nonneg[of p]
        flash_pos[OF i, of "flashCrashPhase p" v "flashCrashRecovery p"]
      by (simp add: getPriceModifier_def gt_zero_def i_def Let_def)
  next
    case other
    then show ?thesis
      by (auto simp: getPriceModifier_def gt_zero_def validScenarios_def)
  qed
qed

lemma gt_zero_mult:
  "0 < b \<Longrightarrow> gt_zero m \<Longrightarrow> gt_zero (mult_number (Num b) m)"
  by (cases m) (auto simp: gt_zero_def mult_number_def sign_number_def Let_def)

text \<open>
  Claim C2. For every token list, every recognised scenario type, every parameter set
  with intensity, range width and recovery speed in [0, 1] and direction bias in
  [-1, 1], and every progress in [0, 1], every price in the snapshot of
  \<open>generateMarketData\<close> is to be strictly positive. The code documents the direction
  bias as ranging from -1 to 1 and puts no floor under the price modifier. Evaluated
  in the high-volatility scenario with intensity 1 and direction bias -1, at progress
  0.975: the price modifier is \<open>1 + 0.5 * sin (19.5 * pi) - 0.975 = -0.475\<close>, and the
  price of \<open>ETH\<close>, whose base price is 2485, is -1180.375.
\<close>

theorem high_volatility_price_negative:
  "parametersInRange volatileParameters \<and>
   priceOf ''ETH''
     (generateMarketData ''high_volatility'' volatileParameters (39 / 40) [''ETH''] 0 noJitter)
     = Some (Num (- (9443 / 8))) \<and>
   \<not> gt_zero (Num (- (9443 / 8)))"
proof -
  have "getPriceModifier ''high_volatility'' volatileParameters (39 / 40) = Num (- (19 / 40))"
    by (simp add: getPriceModifier_def volatileParameters_def or_default_def Let_def
        sin_39_halves_pi)
  then show ?thesis
    by (simp add: priceOf_def generateMarketData_single price_tokenData getBasePriceForToken_ETH
        mult_number_def gt_zero_def parametersInRange_def in_range_def volatileParameters_def)
qed

text \<open>
  Where the prices are positive. With the parameters in their ranges and the progress
  in [0, 1], every price in the snapshot is strictly positive in the bull market, the
  bear market, the market crash, the liquidity crisis and for an unrecognised type;
  in the flash crash when the recovery speed is given; and in the sideways market
  and the high-volatility scenario under the sufficient condition \<open>swingBelowOne\<close>.
\<close>

lemma generateMarketData_prices_positive:
  assumes "parametersInRange ps" and "0 \<le> prog" and "prog \<le> 1"
    and "swingBelowOne scenarioType ps"
    and "tokens (generateMarketData scenarioType ps prog toks now random) token = Some d"
  shows "gt_zero (price d)"
proof -
  from assms(5) obtain k where "d = tokenData scenarioType ps prog random k token"
    using generateTokens_lookup[of scenarioType ps prog random 0 toks Map.empty token d]
    by (auto simp: generateMarketData_def)
  then have "price d = mult_number (Num (getBasePriceForToken token))
                                   (getPriceModifier scenarioType ps prog)"
    by (simp add: tokenData_def Let_def)
  then show ?thesis
    using gt_zero_mult[OF getBasePriceForToken_pos getPriceModifier_pos[OF assms(1-4)]]
    by simp
qed

subsection \<open>Unrecognised scenario types\<close>

lemma map_of_configs_valid:
  "map_of (configs ps) st = None \<longleftrightarrow> st \<notin> set validScenarios"
  by (auto simp: configs_def validScenarios_def)

lemma getScenarioConfig_bull:
  "getScenarioConfig ''bull_market'' ps =
     Config \<lparr>description = ''Sustained upward price movement with low volatility'',
         cfg_duration = or_default (duration ps) (7 * 24 * 60 * 60),
         cfg_intensity = Some (or_default (intensity ps) (5 / 10)),
         cfg_recovery_speed = None, cfg_range_width = None, cfg_direction_bias = None,
         difficulty = ''easy''\<rparr>"
  by (simp add: getScenarioConfig_def configs_def)

lemma getScenarioConfig_fallback:
  assumes "st \<notin> set validScenarios" and "st \<notin> set objectPrototypeKeys"
  shows "getScenarioConfig st ps = getScenarioConfig ''bull_market'' ps"
proof -
  have "map_of (configs ps) st = None" using assms(1) by (simp add: map_of_configs_valid)
  then show ?thesis
    using assms(2) by (simp add: getScenarioConfig_def configs_def)
qed

lemma marketMetricsFor_fallback:
  "st \<notin> set validScenarios \<Longrightarrow> marketMetricsFor st p = marketMetricsFor ''bull_market'' p"
  by (simp add: marketMetricsFor_def validScenarios_def)

lemma tokenData_fallback:
  assumes "st \<notin> set validScenarios"
  shows "tokenData st ps p random k token =
     \<lparr>price = Num (getBasePriceForToken token),
      priceChange24h = (random k * 2 - 1) * 5,
      volume = 1000000,
      marketDepth_asks =
        generateOrderBook Ask (Num (getBasePriceForToken token)) 5 1 random (k + 1),
      marketDepth_bids =
        generateOrderBook Bid (Num (getBasePriceForToken token)) 5 1 random (k + 6)\<rparr>"
  using assms
  by (simp add: tokenData_def getPriceModifier_def getVolumeModifier_def getDepthModifier_def
      getPriceChange_def validScenarios_def mult_number_def Let_def)

text \<open>
  Claim C3 says that an unrecognised scenario type yields exactly the market data of
  the bull market. The fallback to the bull market exists in the configuration and in
  the market metrics only: the modifiers of price, volume and depth take their own
  default, the constant 1. Seven days into the scenario the bull market has multiplied
  the price and the volume by 1.5, and the unrecognised type has not.
\<close>

theorem unrecognised_scenario_differs_from_bull_market:
  "scenarioPriceOf ''ETH'' (getScenarioData (demoQuery ''unknown'') 0 noJitter)
     = Some (Num 2485) \<and>
   scenarioPriceOf ''ETH'' (getScenarioData (demoQuery ''bull_market'') 0 noJitter)
     = Some (Num (7455 / 2)) \<and>
   scenarioVolumeOf ''ETH'' (getScenarioData (demoQuery ''unknown'') 0 noJitter)
     = Some 1000000 \<and>
   scenarioVolumeOf ''ETH'' (getScenarioData (demoQuery ''bull_market'') 0 noJitter)
     = Some 1500000"
proof -
  have u: "''unknown'' \<notin> set validScenarios" "''unknown'' \<notin> set objectPrototypeKeys"
    by (simp_all add: validScenarios_def objectPrototypeKeys_def)
  have 1: "getScenarioData (demoQuery ''unknown'') 0 noJitter =
        Some (generateMarketData ''unknown'' noParameters 1 [''ETH''] 0 noJitter)"
    by (simp add: getScenarioData_def getScenarioConfig_fallback[OF u] getScenarioConfig_bull
        demoQuery_def noParameters_def or_default_def)
  have 2: "getScenarioData (demoQuery ''bull_market'') 0 noJitter =
        Some (generateMarketData ''bull_market'' noParameters 1 [''ETH''] 0 noJitter)"
    by (simp add: getScenarioData_def getScenarioConfig_bull
        demoQuery_def noParameters_def or_default_def)
  show ?thesis
    unfolding 1 2
    by (simp add: scenarioPriceOf_def scenarioVolumeOf_def priceOf_def generateMarketData_single
        tokenData_fallback[OF u(1)] getBasePriceForToken_ETH)
       (simp add: tokenData_def getPriceModifier_def getVolumeModifier_def
         getBasePriceForToken_ETH noParameters_def or_default_def mult_number_def Let_def)
qed

text \<open>
  Claim C3, amended. For every scenario type that is neither one of the seven
  archetypes nor the name of a member of \<open>Object.prototype\<close>, every parameter set, every
  pair of timestamps and every token list, \<open>getScenarioData\<close> returns market data, with
  the same timestamp, progress, market metrics and set of tokens as for \<open>bull_market\<close>
  with the same arguments. Each token has its base price as its price, the volume
  1000000 and an order book generated with the depth modifier 1.
\<close>

theorem unrecognised_scenario_falls_back:
  assumes "st \<notin> set validScenarios" and "st \<notin> set objectPrototypeKeys"
  shows "\<exists>md mdb.
           getScenarioData (q\<lparr>q_scenarioType := st\<rparr>) now random = Some md \<and>
           getScenarioData (q\<lparr>q_scenarioType := ''bull_market''\<rparr>) now random = Some mdb \<and>
           timestamp md = timestamp mdb \<and> progress md = progress mdb \<and>
           marketMetrics md = marketMetrics mdb \<and> dom (tokens md) = dom (tokens mdb) \<and>
           (\<forall>token d. tokens md token = Some d \<longrightarrow>
              price d = Num (getBasePriceForToken token) \<and> volume d = 1000000 \<and>
              (\<exists>k. marketDepth_asks d =
                      generateOrderBook Ask (Num (getBasePriceForToken token)) 5 1 random (k + 1) \<and>
                    marketDepth_bids d =
                      generateOrderBook Bid (Num (getBasePriceForToken token)) 5 1 random (k + 6)))"
proof -
  define ps where "ps = q_parameters q"
  define prog where "prog = min 1 (max 0 (real_of_int (q_currentTime q - q_startTime q)
                                     / (or_default (duration ps) (7 * 24 * 60 * 60) * 1000)))"
  define md where "md = generateMarketData st ps prog (q_tokens q) now random"
  define mdb where "mdb = generateMarketData ''bull_market'' ps prog (q_tokens q) now random"
  have b: "getScenarioData (q\<lparr>q_scenarioType := ''bull_market''\<rparr>) now random = Some mdb"
    by (simp add: getScenarioData_def getScenarioConfig_bull mdb_def prog_def ps_def)
  have a: "getScenarioData (q\<lparr>q_scenarioType := st\<rparr>) now random = Some md"
    by (simp add: getScenarioData_def getScenarioConfig_fallback[OF assms] getScenarioConfig_bull
        md_def prog_def ps_def)
  have m: "timestamp md = timestamp mdb" "progress md = progress mdb"
    "marketMetrics md = marketMetrics mdb" "dom (tokens md) = dom (tokens mdb)"
    by (simp_all add: md_def mdb_def generateMarketData_def marketMetricsFor_fallback[OF assms(1)]
        dom_generateTokens)
  have t: "price d = Num (getBasePriceForToken token) \<and> volume d = 1000000 \<and>
              (\<exists>k. marketDepth_asks d =
                      generateOrderBook Ask (Num (getBasePriceForToken token)) 5 1 random (k + 1) \<and>
                    marketDepth_bids d =
                      generateOrderBook Bid (Num (getBasePriceForToken token)) 5 1 random (k + 6))"
    if "tokens md token = Some d" for token d
  proof -
    from that obtain k where "d = tokenData st ps prog random k token"
      using generateTokens_lookup[of st ps prog random 0 "q_tokens q" Map.empty token d]
      by (auto simp: md_def generateMarketData_def)
    then show ?thesis
      by (auto simp: tokenData_fallback[OF assms(1)])
  qed
  from a b m t show ?thesis by blast
qed

text \<open>The scenario type \<open>unknown\<close> on the sample query.\<close>

theorem unrecognised_scenario_falls_back_witness:
  "''unknown'' \<notin> set validScenarios \<and> ''unknown'' \<notin> set objectPrototypeKeys \<and>
   (\<exists>md mdb.
      getScenarioData (demoQuery ''unknown'') 0 noJitter = Some md \<and>
      getScenarioData (demoQuery ''bull_market'') 0 noJitter = Some mdb \<and>
      progress md = progress mdb \<and> marketMetrics md = marketMetrics mdb \<and>
      dom (tokens md) = dom (tokens mdb) \<and>
      (\<forall>d. tokens md ''ETH'' = Some d \<longrightarrow> price d = Num 2485 \<and> volume d = 1000000))"
proof -
  have u: "''unknown'' \<notin> set validScenarios" "''unknown'' \<notin> set objectPrototypeKeys"
    by (simp_all add: validScenarios_def objectPrototypeKeys_def)
  have q1: "(demoQuery ''x'')\<lparr>q_scenarioType := ''unknown''\<rparr> = demoQuery ''unknown''"
    and q2: "(demoQuery ''x'')\<lparr>q_scenarioType := ''bull_market''\<rparr> = demoQuery ''bull_market''"
    by (simp_all add: demoQuery_def)
  from unrecognised_scenario_falls_back[OF u, of "demoQuery ''x''" 0 noJitter]
  obtain md mdb where
    "getScenarioData (demoQuery ''unknown'') 0 noJitter = Some md"
    "getScenarioData (demoQuery ''bull_market'') 0 noJitter = Some mdb"
    "progress md = progress mdb" "marketMetrics md = marketMetrics mdb"
    "dom (tokens md) = dom (tokens mdb)"
    "\<forall>token d. tokens md token = Some d \<longrightarrow>
        price d = Num (getBasePriceForToken token) \<and> volume d = 1000000"
    unfolding q1 q2 by blast
  with u show ?thesis
    by (auto simp: getBasePriceForToken_ETH)
qed

subsection \<open>The market crash and the order book\<close>

text \<open>
  Claim C8. With scenario type \<open>market_crash\<close> and intensity 0.7, the price modifier at
  progress 0.1 is strictly less than the price modifier at progress 0.
\<close>

theorem market_crash_price_falls:
  "lt_number (getPriceModifier ''market_crash'' crashParameters (1 / 10))
             (getPriceModifier ''market_crash'' crashParameters 0)"
  by (simp add: getPriceModifier_def crashParameters_def noParameters_def or_default_def
      crashPoint_def lt_number_def Let_def)

lemma market_crash_price_values:
  "getPriceModifier ''market_crash'' crashParameters 0 = Num 1"
  "getPriceModifier ''market_crash'' crashParameters (1 / 10)
     = Num (1 - (7 / 10) * (1 - exp (- (5 / 2))))"
  by (simp_all add: getPriceModifier_def crashParameters_def noParameters_def or_default_def
      crashPoint_def Let_def)

lemma length_generateOrderBook:
  "length (generateOrderBook type pr levels dm random k) = levels"
  by (simp add: generateOrderBook_def)

lemma amount_generateOrderBook:
  "i < levels \<Longrightarrow>
   amount (generateOrderBook type pr levels dm random k ! i) =
     dm * (1000 - real i * 150) * (1 + (2 / 10) * random (k + i))"
  by (simp add: generateOrderBook_def orderBookLevel_def Let_def)

text \<open>
  Claim C9. With every draw of the jitter equal to zero, for every non-negative depth
  modifier, every base price, every side and every number of levels, the amount at a
  level of the order book is at most the amount at every earlier level.
\<close>

theorem orderBook_amount_non_increasing:
  assumes "0 \<le> depthModifier" and "i \<le> j" and "j < levels"
  shows "amount (generateOrderBook type pr levels depthModifier noJitter k ! j)
           \<le> amount (generateOrderBook type pr levels depthModifier noJitter k ! i)"
proof -
  have "real i \<le> real j" using assms(2) by simp
  then have "1000 - real j * 150 \<le> 1000 - real i * 150" by simp
  then have "depthModifier * (1000 - real j * 150) \<le> depthModifier * (1000 - real i * 150)"
    using assms(1) by (rule mult_left_mono)
  moreover have "i < levels" using assms by simp
  ultimately show ?thesis
    using assms(3) by (simp add: amount_generateOrderBook noJitter_def)
qed

text \<open>Five levels at depth modifier 1: level 1 holds 850 and level 3 holds 550.\<close>

theorem orderBook_amount_non_increasing_witness:
  "(0::real) \<le> 1 \<and> (1::nat) \<le> 3 \<and> (3::nat) < 5 \<and>
   amount (generateOrderBook Ask (Num 2485) 5 1 noJitter 0 ! 3) = 550 \<and>
   amount (generateOrderBook Ask (Num 2485) 5 1 noJitter 0 ! 1) = 850 \<and>
   amount (generateOrderBook Ask (Num 2485) 5 1 noJitter 0 ! 3)
     \<le> amount (generateOrderBook Ask (Num 2485) 5 1 noJitter 0 ! 1)"
proof -
  have h1: "(0::real) \<le> 1" and h2: "(1::nat) \<le> 3" and h3: "(3::nat) < 5" by simp_all
  have v: "amount (generateOrderBook Ask (Num 2485) 5 1 noJitter 0 ! 3) = 550"
    "amount (generateOrderBook Ask (Num 2485) 5 1 noJitter 0 ! 1) = 850"
    by (simp_all add: amount_generateOrderBook noJitter_def)
  from orderBook_amount_non_increasing[OF h1 h2 h3, of Ask "Num 2485" 0] v
  show ?thesis by simp
qed

section \<open>Properties of the historical replay\<close>

lemma historical_getBasePriceForToken_valid:
  "\<exists>b. historical_getBasePriceForToken fmt token (Time_Value v) = Inr b"
  by (simp add: historical_getBasePriceForToken_def dateToISOString_def Let_def)

lemma historicalTokens_lookup:
  assumes "historical_getBasePriceForToken fmt token (Time_Value v) = Inr b"
  shows "\<exists>m. historicalTokens fmt (Time_Value v) random k toks acc = Inr m \<and>
             map_option h_price (m token) =
               (if token \<in> set toks \<and> token \<noteq> ''__proto__'' then Some b
                else map_option h_price (acc token))"
proof (induction toks arbitrary: k acc)
  case Nil
  then show ?case by simp
next
  case (Cons a toks)
  obtain b' where b': "historical_getBasePriceForToken fmt a (Time_Value v) = Inr b'"
    using historical_getBasePriceForToken_valid by blast
  define acc' where "acc' = assign_property acc a
              \<lparr>h_price = b', h_volume = \<lfloor>random k * 10000000\<rfloor>,
               h_marketCap = b' * real_of_int \<lfloor>random (k + 1) * 1000000000\<rfloor>,
               h_supply = \<lfloor>random (k + 2) * 1000000000\<rfloor>\<rparr>"
  have step: "historicalTokens fmt (Time_Value v) random k (a # toks) acc =
              historicalTokens fmt (Time_Value v) random (k + 3) toks acc'"
    by (simp add: b' acc'_def)
  from Cons.IH[of "k + 3" acc']
  obtain m where m: "historicalTokens fmt (Time_Value v) random (k + 3) toks acc' = Inr m"
    and p: "map_option h_price (m token) =
              (if token \<in> set toks \<and> token \<noteq> ''__proto__'' then Some b
               else map_option h_price (acc' token))"
    by blast
  have "map_option h_price (acc' token) =
          (if token = a \<and> token \<noteq> ''__proto__'' then Some b
           else map_option h_price (acc token))"
    using assms b' by (auto simp: acc'_def assign_property_def)
  with p have "map_option h_price (m token) =
               (if token \<in> set (a # toks) \<and> token \<noteq> ''__proto__'' then Some b
                else map_option h_price (acc token))"
    by auto
  with m step show ?case by simp
qed

lemma historicalPriceOf_getHistoricalData:
  "historicalPriceOf token (getHistoricalData fmt ts toks random) =
     (case historical_getBasePriceForToken fmt token ts of
        Inl e \<Rightarrow> Inl e
      | Inr b \<Rightarrow> Inr (if token \<in> set toks \<and> token \<noteq> ''__proto__'' then Some b else None))"
proof (cases ts)
  case Invalid_Date
  then show ?thesis
    by (simp add: historicalPriceOf_def getHistoricalData_def historical_getBasePriceForToken_def
        dateToISOString_def)
next
  case (Time_Value v)
  obtain b where b: "historical_getBasePriceForToken fmt token (Time_Value v) = Inr b"
    using historical_getBasePriceForToken_valid by blast
  from historicalTokens_lookup[OF b, of random 2 toks Map.empty]
  obtain m where "historicalTokens fmt (Time_Value v) random 2 toks Map.empty = Inr m"
    and "map_option h_price (m token) =
           (if token \<in> set toks \<and> token \<noteq> ''__proto__'' then Some b else None)"
    by auto
  then show ?thesis
    using Time_Value b
    by (simp add: historicalPriceOf_def getHistoricalData_def dateToISOString_def)
qed

lemma simpleHash_ETH_2021: "simpleHash ''ETH2021-01-01T00:00:00.000Z'' = 101472762"
  by (simp add: simpleHash_def)

text \<open>
  Claim C7. For every token and every timestamp, two calls of the historical price
  function with that token and that timestamp report the same price: the price of a
  token is the same in any two runs of \<open>getHistoricalData\<close> at one timestamp whose token
  lists contain the token, whatever values \<open>Math.random()\<close> returns in each run and
  whatever other tokens are asked for. That price is the value of \<open>getBasePriceForToken\<close>
  at the token and the timestamp (the key \<open>__proto__\<close> is never reported). On an
  invalid timestamp both runs raise the same error.
\<close>

theorem historical_price_deterministic:
  assumes "token \<in> set toks1" and "token \<in> set toks2"
  shows "historicalPriceOf token (getHistoricalData fmt ts toks1 random1) =
         historicalPriceOf token (getHistoricalData fmt ts toks2 random2) \<and>
         historicalPriceOf token (getHistoricalData fmt ts toks1 random1) =
           (case historical_getBasePriceForToken fmt token ts of
              Inl e \<Rightarrow> Inl e
            | Inr b \<Rightarrow> Inr (if token = ''__proto__'' then None else Some b))"
  using assms by (simp add: historicalPriceOf_getHistoricalData split: sum.splits)

text \<open>
  Two runs at the first instant of 2021, one for \<open>ETH\<close> alone with every draw 0 and one
  for \<open>BTC\<close> and \<open>ETH\<close> with every draw 0.5: both report 2262 for \<open>ETH\<close>.
\<close>

theorem historical_price_deterministic_witness:
  "''ETH'' \<in> set [''ETH''] \<and> ''ETH'' \<in> set [''BTC'', ''ETH''] \<and>
   historicalPriceOf ''ETH''
     (getHistoricalData demoFormat (Time_Value 1609459200000) [''ETH''] noJitter)
     = Inr (Some 2262) \<and>
   historicalPriceOf ''ETH''
     (getHistoricalData demoFormat (Time_Value 1609459200000) [''BTC'', ''ETH''] halfJitter)
     = Inr (Some 2262)"
proof -
  have h1: "''ETH'' \<in> set [''ETH'']" and h2: "''ETH'' \<in> set [''BTC'', ''ETH'']" by simp_all
  have b: "historical_getBasePriceForToken demoFormat ''ETH'' (Time_Value 1609459200000)
             = Inr 2262"
    by (simp add: historical_getBasePriceForToken_def dateToISOString_def demoFormat_def
        simpleHash_ETH_2021 toLowerCase_ETH)
  have v: "historicalPriceOf ''ETH''
             (getHistoricalData demoFormat (Time_Value 1609459200000) [''ETH''] noJitter)
           = Inr (Some 2262)"
    by (simp add: getHistoricalData_def historicalPriceOf_def dateToISOString_def b
        assign_property_def)
  from historical_price_deterministic[OF h1 h2,
         of demoFormat "Time_Value 1609459200000" noJitter halfJitter] v
  show ?thesis by simp
qed

end
